theory Spec2Isabelle
  imports Main "HOL-Library.Word"
begin

section \<open>Data model of the database handle (interface/kingdb.cc)\<close>

text \<open>
  The handle \<open>KingDB\<close> of \<^verbatim>\<open>interface/kingdb.cc\<close> talks to four collaborators whose
  code lives in other files of the repository: the write buffer \<open>wb_\<close>, the storage engine
  \<open>se_\<close>, the streaming compressor \<open>compressor_\<close> and the streaming checksum \<open>crc32_\<close>.
  They are parameters of the model.  Calls to the write buffer, the engine, a snapshot or an
  iterator are recorded, in order, in a trace of events, and what such a call returns is a
  function of the trace up to and including that call: this is the most general deterministic
  behaviour of a stateful collaborator.  The compressor and the checksum are given by their
  operations on a thread-local state of an arbitrary type.  Logging calls are not modelled,
  and the opaque \<open>ReadOptions\<close> and \<open>WriteOptions\<close> arguments, which the handle only
  passes on, are left out.
\<close>

type_synonym u64 = "64 word"
type_synonym u32 = "32 word"
type_synonym byte = "8 word"

subsection \<open>Status\<close>

text \<open>
  Modelled from the spec: the class \<open>Status\<close>, which is declared in status.h and not in
  \<^verbatim>\<open>interface/kingdb.cc\<close>.
  A status is one of the kinds OK, NotFound, DeleteOrder, IOError and InvalidArgument with a
  message; \<open>IsOK\<close>, \<open>IsNotFound\<close> and \<open>IsDeleteOrder\<close> test the kind.  A
  default-constructed status (\<^verbatim>\<open>Status s;\<close>) is OK with an empty message.
\<close>

datatype Code = kOK | kNotFound | kDeleteOrder | kInvalidArgument | kIOError

datatype Status = Status Code string

definition OK :: Status where
  "OK = Status kOK []"

definition NotFound :: "string \<Rightarrow> Status" where
  "NotFound msg = Status kNotFound msg"

definition IOError :: "string \<Rightarrow> Status" where
  "IOError msg = Status kIOError msg"

fun code :: "Status \<Rightarrow> Code" where
  "code (Status c msg) = c"

definition IsOK :: "Status \<Rightarrow> bool" where
  "IsOK s = (code s = kOK)"

definition IsNotFound :: "Status \<Rightarrow> bool" where
  "IsNotFound s = (code s = kNotFound)"

definition IsDeleteOrder :: "Status \<Rightarrow> bool" where
  "IsDeleteOrder s = (code s = kDeleteOrder)"

subsection \<open>Byte arrays\<close>

text \<open>
  Modelled from the spec: the class \<open>ByteArray\<close> and its two variants used by the handle.
  A byte array is given by the bytes of its visible window; \<open>SimpleByteArray\<close> is the
  non-owning window into another region, \<open>SharedAllocatedByteArray\<close> owns its bytes.
  \<open>size\<close> is a 64-bit count.  \<open>set_offset n\<close> moves the origin of the window \<open>n\<close> bytes
  into the region, so that the size is what remains up to the end of the region; the handle
  calls it once, on a buffer whose origin has not been moved before.
\<close>

datatype ByteArray = SimpleByteArray "byte list" | SharedAllocatedByteArray "byte list"

fun data :: "ByteArray \<Rightarrow> byte list" where
  "data (SimpleByteArray bs) = bs"
| "data (SharedAllocatedByteArray bs) = bs"

definition size_b :: "ByteArray \<Rightarrow> u64" where
  "size_b b = word_of_nat (length (data b))"

fun set_offset :: "nat \<Rightarrow> ByteArray \<Rightarrow> ByteArray" where
  "set_offset n (SimpleByteArray bs) = SimpleByteArray (drop n bs)"
| "set_offset n (SharedAllocatedByteArray bs) = SharedAllocatedByteArray (drop n bs)"

subsection \<open>Snapshots and iterators\<close>

text \<open>
  The read-only engine is recorded by the arguments of its constructor call
  \<^verbatim>\<open>StorageEngine(db_options_, nullptr, dbname_, true, fileids_ignore, fileid_end)\<close>,
  a snapshot by the arguments of
  \<^verbatim>\<open>Snapshot(db_options_, dbname_, se_, se_readonly, fileids_iterator, snapshot_id)\<close>,
  where \<open>se_\<close> is the handle's own, live engine.  An iterator carries the snapshot that
  \<open>SetParentSnapshot\<close> stores in it.
\<close>

record StorageEngine =
  se_dbname :: string
  se_read_only :: bool
  se_fileids_ignore :: "u32 list"
  se_fileid_end :: u32

datatype EngineRef = LiveEngine | ReadOnlyEngine StorageEngine

record Snapshot =
  sn_dbname :: string
  sn_se :: EngineRef
  sn_se_readonly :: EngineRef
  sn_fileids_iterator :: "u32 list"
  sn_snapshot_id :: u32

record Iterator =
  it_handle :: nat
  it_parent_snapshot :: "Snapshot option"

subsection \<open>Calls to the collaborators\<close>

datatype event =
    WB_Get ByteArray
  | SE_Get ByteArray
  | SE_FileSystemStatus
  | WB_PutChunk ByteArray ByteArray u64 u64 u64 u32
  | WB_Delete ByteArray
  | WB_Flush
  | SE_FlushCurrentFileForSnapshot
  | SE_GetNewSnapshotData
  | SE_New StorageEngine
  | SE_GetFileidsIterator StorageEngine
  | Snapshot_New Snapshot
  | Snapshot_NewIterator Snapshot
  | Iterator_SetParentSnapshot nat Snapshot

datatype CompressionType = kNoCompression | kLZ4Compression

text \<open>
  The handle: its own fields (\<open>is_closed\<close>, \<open>dbname\<close>, the two options of
  \<open>db_options_\<close> that it reads) and the behaviour of its collaborators.
  \<open>CalculatePaddingSize\<close> is \<open>EntryHeader::CalculatePaddingSize\<close>.  For the compressor,
  \<open>Compress\<close> returns the status, the output buffer (whose length is the output size) and
  the new state; \<open>frame_header_uncompressed\<close> is the frame header that
  \<open>DisableCompressionInFrameHeader\<close> writes, and its length is \<open>size_frame_header()\<close>.
\<close>

record ('c, 'h) KingDB =
  is_closed :: bool
  dbname :: string
  storage__maximum_chunk_size :: u64
  compression_type :: CompressionType
  CalculatePaddingSize :: "u64 \<Rightarrow> u64"
  wb_Get :: "event list \<Rightarrow> Status \<times> ByteArray option"
  wb_PutChunk :: "event list \<Rightarrow> Status"
  wb_Delete :: "event list \<Rightarrow> Status"
  se_Get :: "event list \<Rightarrow> Status \<times> ByteArray option"
  se_FileSystemStatus :: "event list \<Rightarrow> Status"
  se_FlushCurrentFileForSnapshot :: "event list \<Rightarrow> u32"
  se_GetNewSnapshotData :: "event list \<Rightarrow> Status \<times> u32 \<times> u32 list"
  se_GetFileidsIterator :: "event list \<Rightarrow> u32 list"
  snapshot_NewIterator :: "event list \<Rightarrow> nat option"
  compressor_Reset :: "'c \<Rightarrow> 'c"
  compressor_size_compressed :: "'c \<Rightarrow> u64"
  compressor_Compress :: "'c \<Rightarrow> byte list \<Rightarrow> Status \<times> byte list \<times> 'c"
  compressor_AdjustCompressedSize :: "'c \<Rightarrow> u64 \<Rightarrow> 'c"
  frame_header_uncompressed :: "byte list"
  crc32_Reset :: "'h \<Rightarrow> 'h"
  crc32_stream :: "'h \<Rightarrow> byte list \<Rightarrow> 'h"
  crc32_get :: "'h \<Rightarrow> u32"

definition size_frame_header :: "('c, 'h) KingDB \<Rightarrow> u64" where
  "size_frame_header db = word_of_nat (length (frame_header_uncompressed db))"

text \<open>
  The state a call works on: the trace of collaborator calls made so far, and the
  thread-local streaming state of the writer thread (\<open>ts_compression_enabled\<close>,
  \<open>ts_offset\<close>, the compressor's and the checksum's thread-local storage).
\<close>

record ('c, 'h) state =
  trace :: "event list"
  ts_compression_enabled :: u64
  ts_offset :: u64
  compressor :: 'c
  crc32 :: 'h

definition call :: "event \<Rightarrow> ('c, 'h) state \<Rightarrow> ('c, 'h) state" where
  "call e \<sigma> = \<sigma>\<lparr>trace := trace \<sigma> @ [e]\<rparr>"

text \<open>
  What C++ leaves undefined is a value of the model: calling a method through a null
  pointer, and using an object after it has been deleted.
\<close>

datatype fault = NullDereference | UseAfterDelete

section \<open>Get\<close>

text \<open>
  \<open>KingDB::Get\<close>.  The result is the status and what the collaborators stored in
  \<open>*value_out\<close> (the later store wins).
\<close>

definition Get ::
  "('c, 'h) KingDB \<Rightarrow> ByteArray \<Rightarrow> ('c, 'h) state \<Rightarrow> (Status \<times> ByteArray option) \<times> ('c, 'h) state" where
  "Get db key \<sigma> =
    (if is_closed db then ((IOError ''The database is not open'', None), \<sigma>)
     else
       let \<sigma>1 = call (WB_Get key) \<sigma>;
           s = fst (wb_Get db (trace \<sigma>1));
           value_out = snd (wb_Get db (trace \<sigma>1))
       in if IsDeleteOrder s then ((NotFound ''Unable to find entry'', value_out), \<sigma>1)
          else if IsNotFound s then
            let \<sigma>2 = call (SE_Get key) \<sigma>1;
                s2 = fst (se_Get db (trace \<sigma>2));
                value_out2 = (case snd (se_Get db (trace \<sigma>2)) of
                                None \<Rightarrow> value_out | Some v \<Rightarrow> Some v)
            in if IsNotFound s2 then ((s2, value_out2), \<sigma>2)
               else if IsOK s2 then ((s2, value_out2), \<sigma>2)
               else ((s2, value_out2), \<sigma>2)
          else ((s, value_out), \<sigma>1))"

section \<open>Delete\<close>

definition Delete ::
  "('c, 'h) KingDB \<Rightarrow> ByteArray \<Rightarrow> ('c, 'h) state \<Rightarrow> Status \<times> ('c, 'h) state" where
  "Delete db key \<sigma> =
    (if is_closed db then (IOError ''The database is not open'', \<sigma>)
     else
       let \<sigma>1 = call SE_FileSystemStatus \<sigma>;
           s = se_FileSystemStatus db (trace \<sigma>1)
       in if \<not> IsOK s then (s, \<sigma>1)
          else let \<sigma>2 = call (WB_Delete key) \<sigma>1
               in (wb_Delete db (trace \<sigma>2), \<sigma>2))"

section \<open>The chunk pipeline\<close>

text \<open>
  \<open>KingDB::PutChunkValidSize\<close>, lines 85 to 100: the classification of the chunk.
\<close>

definition is_first_chunk :: "u64 \<Rightarrow> bool" where
  "is_first_chunk offset_chunk = (offset_chunk = 0)"

definition is_last_chunk :: "ByteArray \<Rightarrow> u64 \<Rightarrow> u64 \<Rightarrow> bool" where
  "is_last_chunk chunk offset_chunk size_value = (size_b chunk + offset_chunk = size_value)"

definition do_compression :: "('c, 'h) KingDB \<Rightarrow> ByteArray \<Rightarrow> bool" where
  "do_compression db chunk =
     (\<not> (size_b chunk = 0 \<or> compression_type db = kNoCompression))"

text \<open>
  Lines 119 to 149: the chunk is compressed into one frame at the compressor's current
  output size, and the frame is replaced by an uncompressed one when the space check says
  so.  The result is the status of \<open>Compress\<close>, the output buffer (its length is the
  local \<open>size_compressed\<close>), \<open>offset_chunk_compressed\<close> and the state.  The check is
  evaluated before the status is looked at, as in the source.
\<close>

definition PutChunkValidSize_compress ::
  "('c, 'h) KingDB \<Rightarrow> ByteArray \<Rightarrow> u64 \<Rightarrow> u64 \<Rightarrow> ('c, 'h) state
    \<Rightarrow> Status \<times> byte list \<times> u64 \<times> ('c, 'h) state" where
  "PutChunkValidSize_compress db chunk offset_chunk size_value \<sigma> =
    (let \<sigma>1 = (if is_first_chunk offset_chunk
               then \<sigma>\<lparr>compressor := compressor_Reset db (compressor \<sigma>)\<rparr> else \<sigma>);
         offset_chunk_compressed = compressor_size_compressed db (compressor \<sigma>1);
         r = compressor_Compress db (compressor \<sigma>1) (data chunk);
         s = fst r;
         compressed = fst (snd r);
         size_compressed = (word_of_nat (length compressed) :: u64);
         \<sigma>2 = \<sigma>1\<lparr>compressor := snd (snd r)\<rparr>;
         size_remaining = size_value - offset_chunk;
         space_left = size_value + CalculatePaddingSize db size_value - offset_chunk_compressed
     in if size_remaining - size_b chunk + size_frame_header db > space_left - size_compressed
        then
          let compressed_new = frame_header_uncompressed db @ data chunk;
              \<sigma>3 = \<sigma>2\<lparr>compressor :=
                      compressor_AdjustCompressedSize db (compressor \<sigma>2) (- size_compressed)\<rparr>;
              size_compressed_new = size_b chunk + size_frame_header db;
              \<sigma>4 = \<sigma>3\<lparr>ts_compression_enabled := 0\<rparr>;
              \<sigma>5 = \<sigma>4\<lparr>ts_offset :=
                      compressor_size_compressed db (compressor \<sigma>4) + size_compressed_new\<rparr>
          in (s, compressed_new, offset_chunk_compressed, \<sigma>5)
        else (s, compressed, offset_chunk_compressed, \<sigma>2))"

text \<open>
  Lines 102 to 163: the start of an entry, the output offset in fallback mode and the
  choice of the frame.  \<open>Inl s\<close> is the return of line 151; otherwise the result says
  whether \<open>chunk\<close> has been deleted (line 162) and gives \<open>chunk_final\<close> and
  \<open>offset_chunk_compressed\<close>.
\<close>

definition PutChunkValidSize_frame ::
  "('c, 'h) KingDB \<Rightarrow> ByteArray \<Rightarrow> u64 \<Rightarrow> u64 \<Rightarrow> ('c, 'h) state
    \<Rightarrow> (Status + bool \<times> ByteArray \<times> u64) \<times> ('c, 'h) state" where
  "PutChunkValidSize_frame db chunk offset_chunk size_value \<sigma> =
    (let \<sigma>1 = (if is_first_chunk offset_chunk
               then \<sigma>\<lparr>ts_compression_enabled := 1, ts_offset := 0\<rparr> else \<sigma>);
         offset_chunk_compressed =
           (if ts_compression_enabled \<sigma>1 = 0 then ts_offset \<sigma>1 else offset_chunk);
         \<sigma>2 = (if ts_compression_enabled \<sigma>1 = 0
               then \<sigma>1\<lparr>ts_offset := offset_chunk_compressed + size_b chunk\<rparr> else \<sigma>1)
     in if \<not> do_compression db chunk \<or> ts_compression_enabled \<sigma>2 = 0
        then (Inr (False, chunk, offset_chunk_compressed), \<sigma>2)
        else
          let r = PutChunkValidSize_compress db chunk offset_chunk size_value \<sigma>2;
              s = fst r;
              chunk_compressed = SharedAllocatedByteArray (fst (snd r));
              offset_chunk_compressed = fst (snd (snd r));
              \<sigma>3 = snd (snd (snd r))
          in if \<not> IsOK s then (Inl s, \<sigma>3)
             else (Inr (True, chunk_compressed, offset_chunk_compressed), \<sigma>3))"

text \<open>
  Lines 165 to 171: the compressed size of the value, known on the last chunk.
  Line 169 reads \<open>chunk->size()\<close>, also when line 162 has deleted \<open>chunk\<close>.
\<close>

definition PutChunkValidSize_size_value_compressed ::
  "('c, 'h) KingDB \<Rightarrow> ByteArray \<Rightarrow> u64 \<Rightarrow> u64 \<Rightarrow> bool \<Rightarrow> u64 \<Rightarrow> ('c, 'h) state \<Rightarrow> fault + u64" where
  "PutChunkValidSize_size_value_compressed db chunk offset_chunk size_value chunk_deleted
      offset_chunk_compressed \<sigma> =
    (if do_compression db chunk \<and> is_last_chunk chunk offset_chunk size_value
     then (if ts_compression_enabled \<sigma> = 1
           then Inr (compressor_size_compressed db (compressor \<sigma>))
           else if chunk_deleted then Inl UseAfterDelete
           else Inr (offset_chunk_compressed + size_b chunk))
     else Inr 0)"

text \<open>
  Lines 173 to 198: the checksum, the bounds check and the hand-over to the write buffer.
\<close>

definition PutChunkValidSize_finish ::
  "('c, 'h) KingDB \<Rightarrow> ByteArray \<Rightarrow> ByteArray \<Rightarrow> u64 \<Rightarrow> u64 \<Rightarrow> ByteArray \<Rightarrow> u64 \<Rightarrow> u64
    \<Rightarrow> ('c, 'h) state \<Rightarrow> Status \<times> ('c, 'h) state" where
  "PutChunkValidSize_finish db key chunk offset_chunk size_value chunk_final
      offset_chunk_compressed size_value_compressed \<sigma> =
    (let \<sigma>1 = (if is_first_chunk offset_chunk
               then \<sigma>\<lparr>crc32 := crc32_stream db (crc32_Reset db (crc32 \<sigma>)) (data key)\<rparr>
               else \<sigma>);
         \<sigma>2 = \<sigma>1\<lparr>crc32 := crc32_stream db (crc32 \<sigma>1) (data chunk_final)\<rparr>;
         crc = (if is_last_chunk chunk offset_chunk size_value
                then crc32_get db (crc32 \<sigma>2) else 0);
         size_padding = (if do_compression db chunk
                         then CalculatePaddingSize db size_value else 0)
     in if offset_chunk_compressed + size_b chunk_final > size_value + size_padding
        then (IOError ''Prevented write to occur outside of the allocated memory.'', \<sigma>2)
        else
          let \<sigma>3 = call (WB_PutChunk key chunk_final offset_chunk_compressed size_value
                           size_value_compressed crc) \<sigma>2
          in (wb_PutChunk db (trace \<sigma>3), \<sigma>3))"

text \<open>\<open>KingDB::PutChunkValidSize\<close>.\<close>

definition PutChunkValidSize ::
  "('c, 'h) KingDB \<Rightarrow> ByteArray \<Rightarrow> ByteArray \<Rightarrow> u64 \<Rightarrow> u64 \<Rightarrow> ('c, 'h) state
    \<Rightarrow> (fault + Status) \<times> ('c, 'h) state" where
  "PutChunkValidSize db key chunk offset_chunk size_value \<sigma> =
    (if is_closed db then (Inr (IOError ''The database is not open''), \<sigma>)
     else
       let \<sigma>1 = call SE_FileSystemStatus \<sigma>;
           s = se_FileSystemStatus db (trace \<sigma>1)
       in if \<not> IsOK s then (Inr s, \<sigma>1)
          else
            (case PutChunkValidSize_frame db chunk offset_chunk size_value \<sigma>1 of
               (Inl s, \<sigma>2) \<Rightarrow> (Inr s, \<sigma>2)
             | (Inr (chunk_deleted, chunk_final, offset_chunk_compressed), \<sigma>2) \<Rightarrow>
                 (case PutChunkValidSize_size_value_compressed db chunk offset_chunk size_value
                         chunk_deleted offset_chunk_compressed \<sigma>2 of
                    Inl f \<Rightarrow> (Inl f, \<sigma>2)
                  | Inr size_value_compressed \<Rightarrow>
                      (let r = PutChunkValidSize_finish db key chunk offset_chunk size_value
                                 chunk_final offset_chunk_compressed size_value_compressed \<sigma>2
                       in (Inr (fst r), snd r)))))"

text \<open>
  \<open>KingDB::PutChunk\<close>.  The loop of lines 54 to 65 need not end (its step is the
  configured maximum chunk size), so it is a partial function: \<open>None\<close> is a call that
  never returns.  The loop state is \<open>offset\<close>, the status \<open>s\<close> and whether \<open>chunk\<close>
  itself has been handed to \<open>PutChunkValidSize\<close>, which may delete it (line 50):
  line 56 reads \<open>chunk->size()\<close>.
\<close>

partial_function (option) PutChunk_loop ::
  "('c, 'h) KingDB \<Rightarrow> ByteArray \<Rightarrow> ByteArray \<Rightarrow> u64 \<Rightarrow> u64 \<Rightarrow> u64 \<Rightarrow> u64 \<Rightarrow> bool \<Rightarrow> Status
    \<Rightarrow> ('c, 'h) state \<Rightarrow> ((fault + Status) \<times> ('c, 'h) state) option" where
  "PutChunk_loop db key chunk offset_chunk size_value size_chunk offset handed s \<sigma> =
    (if offset < size_chunk then
       (if handed then Some (Inl UseAfterDelete, \<sigma>)
        else
          let window = (offset + storage__maximum_chunk_size db < size_b chunk);
              chunk_new =
                (if window
                 then SimpleByteArray (take (unat (storage__maximum_chunk_size db))
                                         (drop (unat offset) (data chunk)))
                 else set_offset (unat offset) chunk);
              r = PutChunkValidSize db key chunk_new (offset_chunk + offset) size_value \<sigma>
          in if isl (fst r) then Some r
             else if \<not> IsOK (projr (fst r)) then Some r
             else PutChunk_loop db key chunk offset_chunk size_value size_chunk
                    (offset + storage__maximum_chunk_size db) (\<not> window) (projr (fst r)) (snd r))
     else Some (Inr s, \<sigma>))"

definition PutChunk ::
  "('c, 'h) KingDB \<Rightarrow> ByteArray \<Rightarrow> ByteArray \<Rightarrow> u64 \<Rightarrow> u64 \<Rightarrow> ('c, 'h) state
    \<Rightarrow> ((fault + Status) \<times> ('c, 'h) state) option" where
  "PutChunk db key chunk offset_chunk size_value \<sigma> =
    (if is_closed db then Some (Inr (IOError ''The database is not open''), \<sigma>)
     else if size_value \<le> storage__maximum_chunk_size db
     then Some (PutChunkValidSize db key chunk offset_chunk size_value \<sigma>)
     else PutChunk_loop db key chunk offset_chunk size_value (size_b chunk) 0 False OK \<sigma>)"

definition Put ::
  "('c, 'h) KingDB \<Rightarrow> ByteArray \<Rightarrow> ByteArray \<Rightarrow> ('c, 'h) state
    \<Rightarrow> ((fault + Status) \<times> ('c, 'h) state) option" where
  "Put db key chunk \<sigma> = PutChunk db key chunk 0 (size_b chunk) \<sigma>"

section \<open>Snapshots and iterators\<close>

text \<open>\<open>KingDB::NewSnapshot\<close>; \<open>None\<close> is the null pointer.\<close>

definition NewSnapshot ::
  "('c, 'h) KingDB \<Rightarrow> ('c, 'h) state \<Rightarrow> Snapshot option \<times> ('c, 'h) state" where
  "NewSnapshot db \<sigma> =
    (if is_closed db then (None, \<sigma>)
     else
       let \<sigma>1 = call WB_Flush \<sigma>;
           \<sigma>2 = call SE_FlushCurrentFileForSnapshot \<sigma>1;
           fileid_end = se_FlushCurrentFileForSnapshot db (trace \<sigma>2);
           \<sigma>3 = call SE_GetNewSnapshotData \<sigma>2;
           s = fst (se_GetNewSnapshotData db (trace \<sigma>3));
           snapshot_id = fst (snd (se_GetNewSnapshotData db (trace \<sigma>3)));
           fileids_ignore = snd (snd (se_GetNewSnapshotData db (trace \<sigma>3)))
       in if \<not> IsOK s then (None, \<sigma>3)
          else
            let se_readonly = \<lparr>se_dbname = dbname db, se_read_only = True,
                                se_fileids_ignore = fileids_ignore, se_fileid_end = fileid_end\<rparr>;
                \<sigma>4 = call (SE_New se_readonly) \<sigma>3;
                \<sigma>5 = call (SE_GetFileidsIterator se_readonly) \<sigma>4;
                fileids_iterator = se_GetFileidsIterator db (trace \<sigma>5);
                snapshot = \<lparr>sn_dbname = dbname db, sn_se = LiveEngine,
                             sn_se_readonly = ReadOnlyEngine se_readonly,
                             sn_fileids_iterator = fileids_iterator,
                             sn_snapshot_id = snapshot_id\<rparr>;
                \<sigma>6 = call (Snapshot_New snapshot) \<sigma>5
            in (Some snapshot, \<sigma>6))"

text \<open>
  \<open>KingDB::NewIterator\<close>.  Lines 244 and 246 call a method through \<open>snapshot\<close> and
  through \<open>si\<close> with no test of the pointer.
\<close>

definition NewIterator ::
  "('c, 'h) KingDB \<Rightarrow> ('c, 'h) state \<Rightarrow> (fault + Iterator option) \<times> ('c, 'h) state" where
  "NewIterator db \<sigma> =
    (if is_closed db then (Inr None, \<sigma>)
     else
       let snapshot = fst (NewSnapshot db \<sigma>);
           \<sigma>1 = snd (NewSnapshot db \<sigma>)
       in case snapshot of
            None \<Rightarrow> (Inl NullDereference, \<sigma>1)
          | Some sn \<Rightarrow>
              let \<sigma>2 = call (Snapshot_NewIterator sn) \<sigma>1
              in (case snapshot_NewIterator db (trace \<sigma>2) of
                    None \<Rightarrow> (Inl NullDereference, \<sigma>2)
                  | Some h \<Rightarrow>
                      let \<sigma>3 = call (Iterator_SetParentSnapshot h sn) \<sigma>2
                      in (Inr (Some \<lparr>it_handle = h, it_parent_snapshot = Some sn\<rparr>), \<sigma>3)))"

text \<open>
  The calls of \<open>PutChunkValidSize\<close> that a writer thread makes one after another for one
  entry, each with its chunk and its \<open>offset_chunk\<close>, whatever the calls return.
\<close>

fun PutChunkValidSize_calls ::
  "('c, 'h) KingDB \<Rightarrow> ByteArray \<Rightarrow> u64 \<Rightarrow> (ByteArray \<times> u64) list \<Rightarrow> ('c, 'h) state
    \<Rightarrow> ('c, 'h) state" where
  "PutChunkValidSize_calls db key size_value [] \<sigma> = \<sigma>"
| "PutChunkValidSize_calls db key size_value ((chunk, offset_chunk) # calls) \<sigma> =
     PutChunkValidSize_calls db key size_value calls
       (snd (PutChunkValidSize db key chunk offset_chunk size_value \<sigma>))"

section \<open>The split of an oversize chunk, as the spec words it\<close>

text \<open>
  What the spec says of an oversize chunk, for a maximum chunk size \<open>m\<close>: the chunk is
  broken into \<open>k\<close> consecutive sub-chunks at the offsets \<open>0\<close>, \<open>m\<close>, \<open>2 * m\<close>, ...,
  where \<open>k\<close> is the size divided by \<open>m\<close>, rounded up; all but the last are non-owning
  windows of \<open>m\<close> bytes into the input, the last is the input buffer with its offset
  advanced.  The sub-chunks are submitted in order to the valid-size path; a submission
  that does not return OK ends the loop and its result is the result.
\<close>

definition sub_chunks :: "nat \<Rightarrow> ByteArray \<Rightarrow> (ByteArray \<times> nat) list" where
  "sub_chunks m chunk =
     (let k = (length (data chunk) + m - 1) div m
      in map (\<lambda>i. (SimpleByteArray (take m (drop (i * m) (data chunk))), i * m)) [0..<k - 1]
         @ [(set_offset ((k - 1) * m) chunk, (k - 1) * m)])"

fun submit_in_order ::
  "('c, 'h) KingDB \<Rightarrow> ByteArray \<Rightarrow> u64 \<Rightarrow> u64 \<Rightarrow> (ByteArray \<times> nat) list \<Rightarrow> Status
    \<Rightarrow> ('c, 'h) state \<Rightarrow> (fault + Status) \<times> ('c, 'h) state" where
  "submit_in_order db key offset_chunk size_value [] s \<sigma> = (Inr s, \<sigma>)"
| "submit_in_order db key offset_chunk size_value ((sub_chunk, offset) # rest) s \<sigma> =
     (let r = PutChunkValidSize db key sub_chunk (offset_chunk + word_of_nat offset) size_value \<sigma>
      in if isl (fst r) then r
         else if \<not> IsOK (projr (fst r)) then r
         else submit_in_order db key offset_chunk size_value rest (projr (fst r)) (snd r))"

text \<open>
  The loop of \<open>PutChunk\<close> at its start, on an open database whose maximum chunk size is
  0 and whose engine and write buffer always answer OK: the state in which the loop makes
  no progress.
\<close>

definition zero_step_loop ::
  "('c, 'h) KingDB \<Rightarrow> ByteArray \<Rightarrow> u64 \<Rightarrow> u64 \<Rightarrow> u64 \<Rightarrow> bool \<Rightarrow> bool" where
  "zero_step_loop db chunk offset_chunk size_chunk offset handed =
     (storage__maximum_chunk_size db = 0 \<and> offset_chunk = 0 \<and> offset = 0 \<and> \<not> handed \<and>
      size_chunk = size_b chunk \<and> 0 < size_b chunk \<and> \<not> is_closed db \<and>
      (\<forall>tr. IsOK (se_FileSystemStatus db tr)) \<and> (\<forall>tr. IsOK (wb_PutChunk db tr)))"

section \<open>A small database to run the model on\<close>

text \<open>
  An open database with compression on, a maximum chunk size of 4, a padding of 2 bytes, a
  frame header of 2 bytes, a compressor that drops adjacent repetitions, a checksum that
  counts bytes, an empty write buffer and a healthy engine.
\<close>

definition ex_Compress :: "u64 \<Rightarrow> byte list \<Rightarrow> Status \<times> byte list \<times> u64" where
  "ex_Compress c bs =
     (OK, [0, 0] @ remdups_adj bs, c + word_of_nat (length ([0, 0 :: byte] @ remdups_adj bs)))"

definition ex_db :: "(u64, byte list) KingDB" where
  "ex_db = \<lparr>is_closed = False, dbname = ''db'', storage__maximum_chunk_size = 4,
     compression_type = kLZ4Compression, CalculatePaddingSize = (\<lambda>n. 2),
     wb_Get = (\<lambda>tr. (NotFound ''not in buffer'', None)),
     wb_PutChunk = (\<lambda>tr. OK), wb_Delete = (\<lambda>tr. OK),
     se_Get = (\<lambda>tr. (OK, Some (SimpleByteArray [1]))),
     se_FileSystemStatus = (\<lambda>tr. OK),
     se_FlushCurrentFileForSnapshot = (\<lambda>tr. 7),
     se_GetNewSnapshotData = (\<lambda>tr. (OK, 1, [9])),
     se_GetFileidsIterator = (\<lambda>tr. [1, 2, 3]),
     snapshot_NewIterator = (\<lambda>tr. Some 0),
     compressor_Reset = (\<lambda>c. 0), compressor_size_compressed = (\<lambda>c. c),
     compressor_Compress = ex_Compress,
     compressor_AdjustCompressedSize = (\<lambda>c d. c + d),
     frame_header_uncompressed = [1, 1],
     crc32_Reset = (\<lambda>h. []), crc32_stream = (\<lambda>h bs. h @ bs),
     crc32_get = (\<lambda>h. word_of_nat (length h))\<rparr>"

definition ex_state :: "(u64, byte list) state" where
  "ex_state = \<lparr>trace = [], ts_compression_enabled = 0, ts_offset = 0, compressor = 0, crc32 = []\<rparr>"



section \<open>Properties\<close>

lemmas ex_simps = ex_db_def ex_state_def ex_Compress_def call_def OK_def NotFound_def IOError_def
  IsOK_def IsNotFound_def IsDeleteOrder_def

subsection \<open>Read path\<close>

text \<open>
  Claim C3.  On an open database \<open>Get\<close> asks the write buffer first.  If the buffer answers
  DeleteOrder, the result is NotFound and the engine is not asked; if it answers NotFound,
  the engine is asked and its status is the result, whatever it is; any other answer of the
  buffer is the result, and the engine is not asked.
\<close>

theorem Get_lookup_order:
  assumes "\<not> is_closed db"
  shows "(IsDeleteOrder (fst (wb_Get db (trace \<sigma> @ [WB_Get key]))) \<longrightarrow>
            fst (fst (Get db key \<sigma>)) = NotFound ''Unable to find entry'' \<and>
            trace (snd (Get db key \<sigma>)) = trace \<sigma> @ [WB_Get key])
       \<and> (IsNotFound (fst (wb_Get db (trace \<sigma> @ [WB_Get key]))) \<longrightarrow>
            fst (fst (Get db key \<sigma>)) = fst (se_Get db (trace \<sigma> @ [WB_Get key, SE_Get key])) \<and>
            trace (snd (Get db key \<sigma>)) = trace \<sigma> @ [WB_Get key, SE_Get key])
       \<and> (\<not> IsDeleteOrder (fst (wb_Get db (trace \<sigma> @ [WB_Get key]))) \<and>
          \<not> IsNotFound (fst (wb_Get db (trace \<sigma> @ [WB_Get key]))) \<longrightarrow>
            fst (fst (Get db key \<sigma>)) = fst (wb_Get db (trace \<sigma> @ [WB_Get key])) \<and>
            trace (snd (Get db key \<sigma>)) = trace \<sigma> @ [WB_Get key])"
  using assms by (simp add: Get_def call_def Let_def IsDeleteOrder_def IsNotFound_def)

theorem Get_lookup_order_witness:
  "\<not> is_closed ex_db \<and>
   IsNotFound (fst (wb_Get ex_db (trace ex_state @ [WB_Get (SimpleByteArray [7])]))) \<and>
   fst (fst (Get ex_db (SimpleByteArray [7]) ex_state)) = OK \<and>
   trace (snd (Get ex_db (SimpleByteArray [7]) ex_state)) =
     [WB_Get (SimpleByteArray [7]), SE_Get (SimpleByteArray [7])] \<and>
   IsDeleteOrder (fst (wb_Get (ex_db\<lparr>wb_Get := \<lambda>tr. (Status kDeleteOrder [], None)\<rparr>)
     (trace ex_state @ [WB_Get (SimpleByteArray [7])]))) \<and>
   fst (fst (Get (ex_db\<lparr>wb_Get := \<lambda>tr. (Status kDeleteOrder [], None)\<rparr>) (SimpleByteArray [7]) ex_state))
     = NotFound ''Unable to find entry''"
  using Get_lookup_order [of ex_db ex_state "SimpleByteArray [7]"]
    Get_lookup_order [of "ex_db\<lparr>wb_Get := \<lambda>tr. (Status kDeleteOrder [], None)\<rparr>" ex_state "SimpleByteArray [7]"]
  by (simp add: ex_simps)

subsection \<open>Closed database\<close>

text \<open>
  Claim C7.  On a closed database \<open>Get\<close>, \<open>Put\<close>, \<open>PutChunk\<close>, \<open>PutChunkValidSize\<close> and
  \<open>Delete\<close> return the IOError with the message "The database is not open" for every
  input, \<open>NewSnapshot\<close> and \<open>NewIterator\<close> return the null pointer, and no collaborator
  is called and no state is changed.
\<close>

theorem closed_database_rejects:
  assumes "is_closed db"
  shows "Get db key \<sigma> = ((IOError ''The database is not open'', None), \<sigma>)
       \<and> Put db key chunk \<sigma> = Some (Inr (IOError ''The database is not open''), \<sigma>)
       \<and> PutChunk db key chunk offset_chunk size_value \<sigma> =
           Some (Inr (IOError ''The database is not open''), \<sigma>)
       \<and> PutChunkValidSize db key chunk offset_chunk size_value \<sigma> =
           (Inr (IOError ''The database is not open''), \<sigma>)
       \<and> Delete db key \<sigma> = (IOError ''The database is not open'', \<sigma>)
       \<and> NewSnapshot db \<sigma> = (None, \<sigma>)
       \<and> NewIterator db \<sigma> = (Inr None, \<sigma>)"
  using assms
  by (simp add: Get_def Put_def PutChunk_def PutChunkValidSize_def Delete_def
        NewSnapshot_def NewIterator_def)

theorem closed_database_rejects_witness:
  "is_closed (ex_db\<lparr>is_closed := True\<rparr>)
   \<and> fst (Get (ex_db\<lparr>is_closed := True\<rparr>) (SimpleByteArray [7]) ex_state) =
       (Status kIOError ''The database is not open'', None)
   \<and> Put (ex_db\<lparr>is_closed := True\<rparr>) (SimpleByteArray [7]) (SimpleByteArray [5, 6]) ex_state =
       Some (Inr (Status kIOError ''The database is not open''), ex_state)
   \<and> NewIterator (ex_db\<lparr>is_closed := True\<rparr>) ex_state = (Inr None, ex_state)"
  using closed_database_rejects [of "ex_db\<lparr>is_closed := True\<rparr>" "SimpleByteArray [7]" ex_state
      "SimpleByteArray [5, 6]" 0 2]
  by (simp add: ex_db_def IOError_def)

subsection \<open>Unhealthy file system\<close>

text \<open>
  Claim C9.  On an open database, if the engine's \<open>FileSystemStatus\<close> is not OK, then
  \<open>PutChunkValidSize\<close> returns that status as it is; the only call made is the one to
  \<open>FileSystemStatus\<close>, so nothing is handed to the write buffer, and the thread-local
  streaming state (\<open>ts_compression_enabled\<close>, \<open>ts_offset\<close>, compressor, checksum) is
  the one before the call.
\<close>

theorem PutChunkValidSize_filesystem_error:
  assumes "\<not> is_closed db"
    and "\<not> IsOK (se_FileSystemStatus db (trace \<sigma> @ [SE_FileSystemStatus]))"
  shows "PutChunkValidSize db key chunk offset_chunk size_value \<sigma> =
           (Inr (se_FileSystemStatus db (trace \<sigma> @ [SE_FileSystemStatus])),
            \<sigma>\<lparr>trace := trace \<sigma> @ [SE_FileSystemStatus]\<rparr>)"
  using assms by (simp add: PutChunkValidSize_def call_def Let_def)

theorem PutChunkValidSize_filesystem_error_witness:
  "\<not> is_closed (ex_db\<lparr>se_FileSystemStatus := \<lambda>tr. Status kIOError ''disk full''\<rparr>)
   \<and> \<not> IsOK (se_FileSystemStatus (ex_db\<lparr>se_FileSystemStatus := \<lambda>tr. Status kIOError ''disk full''\<rparr>)
          (trace ex_state @ [SE_FileSystemStatus]))
   \<and> PutChunkValidSize (ex_db\<lparr>se_FileSystemStatus := \<lambda>tr. Status kIOError ''disk full''\<rparr>)
        (SimpleByteArray [7]) (SimpleByteArray [5, 6, 7, 8]) 0 4 ex_state =
       (Inr (Status kIOError ''disk full''), ex_state\<lparr>trace := [SE_FileSystemStatus]\<rparr>)"
  using PutChunkValidSize_filesystem_error
    [of "ex_db\<lparr>se_FileSystemStatus := \<lambda>tr. Status kIOError ''disk full''\<rparr>" ex_state
        "SimpleByteArray [7]" "SimpleByteArray [5, 6, 7, 8]" 0 4]
  by (simp add: ex_db_def ex_state_def IsOK_def)

subsection \<open>Helper facts about the pipeline\<close>

lemma size_b_uncompressed_frame:
  "size_b (SharedAllocatedByteArray (frame_header_uncompressed db @ data chunk)) =
     size_b chunk + size_frame_header db"
  by (simp add: size_b_def size_frame_header_def)

lemma PutChunkValidSize_frame_trace:
  "trace (snd (PutChunkValidSize_frame db chunk offset_chunk size_value \<sigma>)) = trace \<sigma>"
  by (simp add: PutChunkValidSize_frame_def PutChunkValidSize_compress_def Let_def)

lemma PutChunkValidSize_open_healthy:
  assumes "\<not> is_closed db"
    and "IsOK (se_FileSystemStatus db (trace \<sigma> @ [SE_FileSystemStatus]))"
    and "PutChunkValidSize_frame db chunk offset_chunk size_value (call SE_FileSystemStatus \<sigma>) =
           (Inr (chunk_deleted, chunk_final, offset_chunk_compressed), \<sigma>2)"
    and "PutChunkValidSize_size_value_compressed db chunk offset_chunk size_value chunk_deleted
           offset_chunk_compressed \<sigma>2 = Inr size_value_compressed"
  shows "PutChunkValidSize db key chunk offset_chunk size_value \<sigma> =
           (Inr (fst (PutChunkValidSize_finish db key chunk offset_chunk size_value chunk_final
                        offset_chunk_compressed size_value_compressed \<sigma>2)),
            snd (PutChunkValidSize_finish db key chunk offset_chunk size_value chunk_final
                        offset_chunk_compressed size_value_compressed \<sigma>2))"
  using assms by (simp add: PutChunkValidSize_def call_def Let_def)

subsection \<open>Compression with a space budget\<close>

text \<open>
  Claim C1.  In the compressed branch of \<open>PutChunkValidSize\<close> (compression wanted for the
  chunk and \<open>ts_compression_enabled\<close> equal to 1 after the start of the entry), with all
  quantities 64-bit words and subtraction modulo \<open>2 ^ 64\<close>, the compressed frame is
  abandoned exactly when
  \<open>size_remaining - chunk.size + size_frame_header() > space_left - out_len\<close>, where
  \<open>size_remaining = size_value - offset_chunk\<close> and
  \<open>space_left = size_value + padding(size_value) - offset_chunk_compressed\<close>.
  On abandonment \<open>ts_compression_enabled\<close> becomes 0, the compressor's size is adjusted by
  minus the old \<open>out_len\<close>, \<open>ts_offset\<close> becomes the compressor's size after the
  adjustment plus the new \<open>out_len\<close>, and the frame handed on is the uncompressed frame,
  of size \<open>chunk.size + size_frame_header()\<close>.  Otherwise the flag stays 1, \<open>ts_offset\<close>
  is untouched and the compressed frame is handed on.  A failed \<open>Compress\<close> is returned
  after the check.
\<close>

theorem compress_fallback:
  fixes db :: "('c, 'h) KingDB" and \<sigma> :: "('c, 'h) state"
    and chunk :: ByteArray and offset_chunk size_value :: u64
  defines "c0 \<equiv> (if offset_chunk = 0 then compressor_Reset db (compressor \<sigma>) else compressor \<sigma>)"
  defines "out \<equiv> compressor_Compress db c0 (data chunk)"
  defines "out_len \<equiv> (word_of_nat (length (fst (snd out))) :: u64)"
  defines "size_remaining \<equiv> size_value - offset_chunk"
  defines "space_left \<equiv>
             size_value + CalculatePaddingSize db size_value - compressor_size_compressed db c0"
  defines "abandon \<equiv> size_remaining - size_b chunk + size_frame_header db > space_left - out_len"
  defines "c2 \<equiv> compressor_AdjustCompressedSize db (snd (snd out)) (- out_len)"
  defines "fr \<equiv> PutChunkValidSize_frame db chunk offset_chunk size_value \<sigma>"
  assumes "do_compression db chunk"
    and "offset_chunk = 0 \<or> ts_compression_enabled \<sigma> = 1"
  shows "(ts_compression_enabled (snd fr) = 0) = abandon
       \<and> (abandon \<longrightarrow>
            compressor (snd fr) = c2 \<and>
            ts_offset (snd fr) =
              compressor_size_compressed db c2 + (size_b chunk + size_frame_header db) \<and>
            (IsOK (fst out) \<longrightarrow>
               fst fr = Inr (True, SharedAllocatedByteArray (frame_header_uncompressed db @ data chunk),
                             compressor_size_compressed db c0) \<and>
               size_b (SharedAllocatedByteArray (frame_header_uncompressed db @ data chunk)) =
                 size_b chunk + size_frame_header db))
       \<and> (\<not> abandon \<longrightarrow>
            ts_compression_enabled (snd fr) = 1 \<and>
            compressor (snd fr) = snd (snd out) \<and>
            ts_offset (snd fr) = (if offset_chunk = 0 then 0 else ts_offset \<sigma>) \<and>
            (IsOK (fst out) \<longrightarrow>
               fst fr = Inr (True, SharedAllocatedByteArray (fst (snd out)),
                             compressor_size_compressed db c0)))
       \<and> (\<not> IsOK (fst out) \<longrightarrow> fst fr = Inl (fst out))"
  using assms(9,10)
  unfolding fr_def abandon_def c2_def space_left_def size_remaining_def out_len_def out_def c0_def
  by (auto simp add: PutChunkValidSize_frame_def PutChunkValidSize_compress_def is_first_chunk_def
        Let_def size_b_uncompressed_frame)

theorem compress_fallback_witness:
  "do_compression ex_db (SimpleByteArray [5, 6, 7, 8])
   \<and> PutChunkValidSize_frame ex_db (SimpleByteArray [5, 6, 7, 8]) 0 8 ex_state =
       (Inr (True, SharedAllocatedByteArray [1, 1, 5, 6, 7, 8], 0),
        ex_state\<lparr>ts_compression_enabled := 0, ts_offset := 6\<rparr>)
   \<and> do_compression ex_db (SimpleByteArray [5, 5, 5, 5])
   \<and> PutChunkValidSize_frame ex_db (SimpleByteArray [5, 5, 5, 5]) 0 8 ex_state =
       (Inr (True, SharedAllocatedByteArray [0, 0, 5], 0),
        ex_state\<lparr>ts_compression_enabled := 1, compressor := 3\<rparr>)"
  using compress_fallback [of ex_db "SimpleByteArray [5, 6, 7, 8]" 0 ex_state 8]
    compress_fallback [of ex_db "SimpleByteArray [5, 5, 5, 5]" 0 ex_state 8]
  by (simp add: ex_simps do_compression_def size_b_def size_frame_header_def
        PutChunkValidSize_frame_def PutChunkValidSize_compress_def is_first_chunk_def Let_def)

subsection \<open>Bounds check\<close>

text \<open>
  Claim C6.  For a call of \<open>PutChunkValidSize\<close> on an open database with a healthy file
  system that reaches the bounds check (the frame has been chosen, a compression has
  succeeded, the compressed size of the value has been computed), let \<open>size_padding\<close> be
  \<open>padding(size_value)\<close> when compression is wanted for the chunk and 0 otherwise.  The
  call returns the IOError about a write outside of the allocated memory, with nothing
  handed to the write buffer, if and only if
  \<open>offset_chunk_compressed + chunk_final.size > size_value + size_padding\<close> (64-bit
  arithmetic); when the inequality does not hold, the chunk is handed to the write buffer
  and the buffer's status is returned.
\<close>

theorem bounds_check:
  fixes db :: "('c, 'h) KingDB" and \<sigma> \<sigma>2 :: "('c, 'h) state"
    and key chunk chunk_final :: ByteArray and offset_chunk size_value offset_chunk_compressed :: u64
  defines "size_padding \<equiv> (if do_compression db chunk then CalculatePaddingSize db size_value else 0)"
  defines "r \<equiv> PutChunkValidSize db key chunk offset_chunk size_value \<sigma>"
  assumes "\<not> is_closed db"
    and "IsOK (se_FileSystemStatus db (trace \<sigma> @ [SE_FileSystemStatus]))"
    and "PutChunkValidSize_frame db chunk offset_chunk size_value (call SE_FileSystemStatus \<sigma>) =
           (Inr (chunk_deleted, chunk_final, offset_chunk_compressed), \<sigma>2)"
    and "PutChunkValidSize_size_value_compressed db chunk offset_chunk size_value chunk_deleted
           offset_chunk_compressed \<sigma>2 = Inr size_value_compressed"
  shows "((fst r = Inr (IOError ''Prevented write to occur outside of the allocated memory.'') \<and>
           trace (snd r) = trace \<sigma> @ [SE_FileSystemStatus])
          = (offset_chunk_compressed + size_b chunk_final > size_value + size_padding))
       \<and> (\<not> (offset_chunk_compressed + size_b chunk_final > size_value + size_padding) \<longrightarrow>
            (\<exists>crc. trace (snd r) =
                      trace \<sigma> @ [SE_FileSystemStatus,
                        WB_PutChunk key chunk_final offset_chunk_compressed size_value
                          size_value_compressed crc]) \<and>
            fst r = Inr (wb_PutChunk db (trace (snd r))))"
proof -
  have tr: "trace \<sigma>2 = trace \<sigma> @ [SE_FileSystemStatus]"
    using PutChunkValidSize_frame_trace [of db chunk offset_chunk size_value "call SE_FileSystemStatus \<sigma>"]
      assms(5) by (simp add: call_def)
  show ?thesis
    unfolding r_def size_padding_def
      PutChunkValidSize_open_healthy [OF assms(3) assms(4) assms(5) assms(6)]
    using tr by (simp add: PutChunkValidSize_finish_def call_def Let_def)
qed

theorem bounds_check_witness:
  "\<not> is_closed ex_db
   \<and> IsOK (se_FileSystemStatus ex_db (trace ex_state @ [SE_FileSystemStatus]))
   \<and> PutChunkValidSize_frame ex_db (SimpleByteArray [5, 5, 5, 5]) 0 4 (call SE_FileSystemStatus ex_state) =
       (Inr (True, SharedAllocatedByteArray [0, 0, 5], 0),
        ex_state\<lparr>trace := [SE_FileSystemStatus], ts_compression_enabled := 1, compressor := 3\<rparr>)
   \<and> fst (PutChunkValidSize ex_db (SimpleByteArray [7]) (SimpleByteArray [5, 5, 5, 5]) 0 4 ex_state) = Inr OK
   \<and> trace (snd (PutChunkValidSize ex_db (SimpleByteArray [7]) (SimpleByteArray [5, 5, 5, 5]) 0 4 ex_state)) =
       [SE_FileSystemStatus,
        WB_PutChunk (SimpleByteArray [7]) (SharedAllocatedByteArray [0, 0, 5]) 0 4 3 4]"
  using bounds_check [of ex_db ex_state "SimpleByteArray [5, 5, 5, 5]" 0 4 True
      "SharedAllocatedByteArray [0, 0, 5]" 0
      "ex_state\<lparr>trace := [SE_FileSystemStatus], ts_compression_enabled := 1, compressor := 3\<rparr>"
      3 "SimpleByteArray [7]"]
  by (simp add: ex_simps do_compression_def size_b_def size_frame_header_def
        PutChunkValidSize_frame_def PutChunkValidSize_compress_def is_first_chunk_def
        is_last_chunk_def PutChunkValidSize_size_value_compressed_def PutChunkValidSize_def
        PutChunkValidSize_finish_def Let_def)

subsection \<open>Helper facts about the thread-local state and the hand-over\<close>

lemma PutChunkValidSize_finish_ts:
  "ts_compression_enabled (snd (PutChunkValidSize_finish db key chunk offset_chunk size_value
      chunk_final offset_chunk_compressed size_value_compressed \<sigma>)) = ts_compression_enabled \<sigma>"
  by (simp add: PutChunkValidSize_finish_def call_def Let_def)

lemma PutChunkValidSize_finish_compressor:
  "compressor (snd (PutChunkValidSize_finish db key chunk offset_chunk size_value
      chunk_final offset_chunk_compressed size_value_compressed \<sigma>)) = compressor \<sigma>"
  by (simp add: PutChunkValidSize_finish_def call_def Let_def)

lemma PutChunkValidSize_compress_enabled:
  "ts_compression_enabled
     (snd (snd (snd (PutChunkValidSize_compress db chunk offset_chunk size_value \<sigma>)))) = 0 \<or>
   ts_compression_enabled
     (snd (snd (snd (PutChunkValidSize_compress db chunk offset_chunk size_value \<sigma>)))) =
     ts_compression_enabled \<sigma>"
  by (simp add: PutChunkValidSize_compress_def Let_def)

lemma PutChunkValidSize_frame_enabled:
  assumes "offset_chunk \<noteq> 0"
  shows "ts_compression_enabled (snd (PutChunkValidSize_frame db chunk offset_chunk size_value \<sigma>)) = 0 \<or>
         ts_compression_enabled (snd (PutChunkValidSize_frame db chunk offset_chunk size_value \<sigma>)) =
           ts_compression_enabled \<sigma>"
proof (cases "ts_compression_enabled \<sigma> = 0")
  case True
  then show ?thesis
    using assms by (simp add: PutChunkValidSize_frame_def is_first_chunk_def Let_def)
next
  case False
  show ?thesis
  proof (cases "do_compression db chunk")
    case True
    with False assms show ?thesis
      using PutChunkValidSize_compress_enabled [of db chunk offset_chunk size_value \<sigma>]
      by (simp add: PutChunkValidSize_frame_def is_first_chunk_def Let_def)
  next
    case nc: False
    with False assms show ?thesis
      by (simp add: PutChunkValidSize_frame_def is_first_chunk_def Let_def)
  qed
qed

lemma PutChunkValidSize_ts:
  "ts_compression_enabled (snd (PutChunkValidSize db key chunk offset_chunk size_value \<sigma>)) =
     (if is_closed db \<or> \<not> IsOK (se_FileSystemStatus db (trace \<sigma> @ [SE_FileSystemStatus]))
      then ts_compression_enabled \<sigma>
      else ts_compression_enabled
             (snd (PutChunkValidSize_frame db chunk offset_chunk size_value
                     (\<sigma>\<lparr>trace := trace \<sigma> @ [SE_FileSystemStatus]\<rparr>))))"
proof (cases "is_closed db \<or> \<not> IsOK (se_FileSystemStatus db (trace \<sigma> @ [SE_FileSystemStatus]))")
  case True
  then show ?thesis by (auto simp add: PutChunkValidSize_def call_def Let_def)
next
  case False
  define \<sigma>1 where "\<sigma>1 = \<sigma>\<lparr>trace := trace \<sigma> @ [SE_FileSystemStatus]\<rparr>"
  obtain fr \<sigma>2 where fr:
    "PutChunkValidSize_frame db chunk offset_chunk size_value \<sigma>1 = (fr, \<sigma>2)"
    by (cases "PutChunkValidSize_frame db chunk offset_chunk size_value \<sigma>1")
  have unf: "PutChunkValidSize db key chunk offset_chunk size_value \<sigma> =
      (case (fr, \<sigma>2) of
         (Inl s, \<sigma>2) \<Rightarrow> (Inr s, \<sigma>2)
       | (Inr (chunk_deleted, chunk_final, offset_chunk_compressed), \<sigma>2) \<Rightarrow>
           (case PutChunkValidSize_size_value_compressed db chunk offset_chunk size_value
                   chunk_deleted offset_chunk_compressed \<sigma>2 of
              Inl f \<Rightarrow> (Inl f, \<sigma>2)
            | Inr size_value_compressed \<Rightarrow>
                (let r = PutChunkValidSize_finish db key chunk offset_chunk size_value
                           chunk_final offset_chunk_compressed size_value_compressed \<sigma>2
                 in (Inr (fst r), snd r))))"
  proof -
    have tr1: "trace \<sigma>1 = trace \<sigma> @ [SE_FileSystemStatus]" by (simp add: \<sigma>1_def)
    show ?thesis
      using False
      by (simp add: PutChunkValidSize_def call_def Let_def \<sigma>1_def [symmetric] fr tr1)
  qed
  have "ts_compression_enabled (snd (PutChunkValidSize db key chunk offset_chunk size_value \<sigma>)) =
          ts_compression_enabled \<sigma>2"
  proof (cases fr)
    case (Inl s)
    then show ?thesis by (simp add: unf)
  next
    case (Inr x)
    obtain d cf occ where x: "x = (d, cf, occ)" by (cases x)
    show ?thesis
    proof (cases "PutChunkValidSize_size_value_compressed db chunk offset_chunk size_value d occ \<sigma>2")
      case (Inl f)
      then show ?thesis by (simp add: unf Inr x)
    next
      case svc: (Inr v)
      then show ?thesis by (simp add: unf Inr x Let_def PutChunkValidSize_finish_ts)
    qed
  qed
  then show ?thesis using False fr by (simp add: \<sigma>1_def)
qed

lemma PutChunkValidSize_enabled_step:
  assumes "offset_chunk \<noteq> 0"
  shows "ts_compression_enabled (snd (PutChunkValidSize db key chunk offset_chunk size_value \<sigma>)) = 0 \<or>
         ts_compression_enabled (snd (PutChunkValidSize db key chunk offset_chunk size_value \<sigma>)) =
           ts_compression_enabled \<sigma>"
  using PutChunkValidSize_frame_enabled [OF assms,
      of db chunk size_value "\<sigma>\<lparr>trace := trace \<sigma> @ [SE_FileSystemStatus]\<rparr>"]
  by (simp add: PutChunkValidSize_ts)

lemma PutChunkValidSize_frame_compressed:
  assumes "do_compression db chunk"
    and "offset_chunk = 0 \<or> ts_compression_enabled \<sigma> = 1"
  shows "PutChunkValidSize_frame db chunk offset_chunk size_value \<sigma> =
     (let r = PutChunkValidSize_compress db chunk offset_chunk size_value
                (if offset_chunk = 0
                 then \<sigma>\<lparr>ts_compression_enabled := 1, ts_offset := 0\<rparr> else \<sigma>)
      in if \<not> IsOK (fst r) then (Inl (fst r), snd (snd (snd r)))
         else (Inr (True, SharedAllocatedByteArray (fst (snd r)), fst (snd (snd r))),
               snd (snd (snd r))))"
proof (cases "offset_chunk = 0")
  case True
  with assms(1) show ?thesis
    by (simp add: PutChunkValidSize_frame_def is_first_chunk_def Let_def)
next
  case False
  with assms have "ts_compression_enabled \<sigma> = 1" by simp
  with False assms(1) show ?thesis
    by (simp add: PutChunkValidSize_frame_def is_first_chunk_def Let_def)
qed

lemma PutChunkValidSize_unfold:
  assumes "\<not> is_closed db"
    and "IsOK (se_FileSystemStatus db (trace \<sigma> @ [SE_FileSystemStatus]))"
    and "PutChunkValidSize_frame db chunk offset_chunk size_value
           (\<sigma>\<lparr>trace := trace \<sigma> @ [SE_FileSystemStatus]\<rparr>) = (fr, \<sigma>2)"
  shows "PutChunkValidSize db key chunk offset_chunk size_value \<sigma> =
      (case fr of
         Inl s \<Rightarrow> (Inr s, \<sigma>2)
       | Inr (chunk_deleted, chunk_final, offset_chunk_compressed) \<Rightarrow>
           (case PutChunkValidSize_size_value_compressed db chunk offset_chunk size_value
                   chunk_deleted offset_chunk_compressed \<sigma>2 of
              Inl f \<Rightarrow> (Inl f, \<sigma>2)
            | Inr size_value_compressed \<Rightarrow>
                (Inr (fst (PutChunkValidSize_finish db key chunk offset_chunk size_value
                             chunk_final offset_chunk_compressed size_value_compressed \<sigma>2)),
                 snd (PutChunkValidSize_finish db key chunk offset_chunk size_value
                             chunk_final offset_chunk_compressed size_value_compressed \<sigma>2))))"
proof (cases fr)
  case (Inl s)
  with assms show ?thesis by (simp add: PutChunkValidSize_def call_def Let_def)
next
  case (Inr x)
  obtain d cf occ where x: "x = (d, cf, occ)" by (cases x)
  show ?thesis
    using assms
    by (cases "PutChunkValidSize_size_value_compressed db chunk offset_chunk size_value d occ \<sigma>2")
      (simp_all add: PutChunkValidSize_def call_def Let_def Inr x)
qed

lemma size_value_compressed_handed_over:
  fixes db :: "('c, 'h) KingDB" and \<sigma> :: "('c, 'h) state"
    and key chunk :: ByteArray and offset_chunk size_value :: u64
  defines "\<sigma>' \<equiv> snd (PutChunkValidSize db key chunk offset_chunk size_value \<sigma>)"
  assumes "trace \<sigma>' = trace \<sigma> @ [SE_FileSystemStatus, WB_PutChunk k cf occ sv svc crc]"
  shows "svc = (if do_compression db chunk \<and> is_last_chunk chunk offset_chunk size_value
                then (if ts_compression_enabled \<sigma>' = 1
                      then compressor_size_compressed db (compressor \<sigma>')
                      else occ + size_b chunk)
                else 0)"
proof -
  have closed: "\<not> is_closed db"
    using assms(2) unfolding \<sigma>'_def by (auto simp add: PutChunkValidSize_def)
  have healthy: "IsOK (se_FileSystemStatus db (trace \<sigma> @ [SE_FileSystemStatus]))"
  proof (rule ccontr)
    assume "\<not> IsOK (se_FileSystemStatus db (trace \<sigma> @ [SE_FileSystemStatus]))"
    with closed have "trace \<sigma>' = trace \<sigma> @ [SE_FileSystemStatus]"
      unfolding \<sigma>'_def by (simp add: PutChunkValidSize_def call_def Let_def)
    with assms(2) show False by simp
  qed
  define \<sigma>1 where "\<sigma>1 = \<sigma>\<lparr>trace := trace \<sigma> @ [SE_FileSystemStatus]\<rparr>"
  obtain fr \<sigma>2 where fr: "PutChunkValidSize_frame db chunk offset_chunk size_value \<sigma>1 = (fr, \<sigma>2)"
    by (cases "PutChunkValidSize_frame db chunk offset_chunk size_value \<sigma>1")
  have tr: "trace \<sigma>2 = trace \<sigma> @ [SE_FileSystemStatus]"
    using PutChunkValidSize_frame_trace [of db chunk offset_chunk size_value \<sigma>1] fr
    by (simp add: \<sigma>1_def)
  note unf = PutChunkValidSize_unfold [OF closed healthy fr [unfolded \<sigma>1_def], of key]
  show ?thesis
  proof (cases fr)
    case (Inl s)
    with assms(2) tr show ?thesis unfolding \<sigma>'_def by (simp add: unf)
  next
    case (Inr x)
    obtain d cf' occ' where x: "x = (d, cf', occ')" by (cases x)
    show ?thesis
    proof (cases "PutChunkValidSize_size_value_compressed db chunk offset_chunk size_value d occ' \<sigma>2")
      case (Inl f)
      with assms(2) tr show ?thesis unfolding \<sigma>'_def by (simp add: unf Inr x)
    next
      case v: (Inr v)
      have s': "\<sigma>' = snd (PutChunkValidSize_finish db key chunk offset_chunk size_value cf' occ' v \<sigma>2)"
        unfolding \<sigma>'_def by (simp add: unf Inr x v)
      have e: "ts_compression_enabled \<sigma>' = ts_compression_enabled \<sigma>2"
        and c: "compressor \<sigma>' = compressor \<sigma>2"
        by (simp_all add: s' PutChunkValidSize_finish_ts PutChunkValidSize_finish_compressor)
      have "svc = v \<and> occ = occ'"
        using assms(2) tr unfolding s'
        by (simp add: PutChunkValidSize_finish_def call_def Let_def split: if_splits)
      with v show ?thesis
        by (auto simp add: e c PutChunkValidSize_size_value_compressed_def split: if_splits)
    qed
  qed
qed

subsection \<open>Fallback is not undone within an entry\<close>

text \<open>
  Claim C5.  For calls of \<open>PutChunkValidSize\<close> made one after another by one writer
  thread, none of them for a first chunk (\<open>offset_chunk\<close> is not 0): if
  \<open>ts_compression_enabled\<close> is 0 before the calls, it is 0 after them; and if it is 1 after
  them, it was 1 before them, so only a first chunk sets the flag to 1.
\<close>

theorem fallback_stays_engaged:
  assumes "\<forall>c \<in> set calls. snd c \<noteq> 0"
  shows "(ts_compression_enabled \<sigma> = 0 \<longrightarrow>
            ts_compression_enabled (PutChunkValidSize_calls db key size_value calls \<sigma>) = 0)
       \<and> (ts_compression_enabled (PutChunkValidSize_calls db key size_value calls \<sigma>) = 1 \<longrightarrow>
            ts_compression_enabled \<sigma> = 1)"
  using assms
proof (induction calls arbitrary: \<sigma>)
  case Nil
  then show ?case by simp
next
  case (Cons c calls)
  obtain chunk offset_chunk where c: "c = (chunk, offset_chunk)" by (cases c)
  define \<sigma>' where "\<sigma>' = snd (PutChunkValidSize db key chunk offset_chunk size_value \<sigma>)"
  from Cons.prems c have off: "offset_chunk \<noteq> 0" by simp
  from Cons.prems have rest: "\<forall>c \<in> set calls. snd c \<noteq> 0" by simp
  have step: "ts_compression_enabled \<sigma>' = 0 \<or> ts_compression_enabled \<sigma>' = ts_compression_enabled \<sigma>"
    unfolding \<sigma>'_def by (rule PutChunkValidSize_enabled_step [OF off])
  have run: "PutChunkValidSize_calls db key size_value (c # calls) \<sigma> =
               PutChunkValidSize_calls db key size_value calls \<sigma>'"
    by (simp add: c \<sigma>'_def)
  from Cons.IH [OF rest, of \<sigma>'] step show ?case
    unfolding run by auto
qed

theorem fallback_stays_engaged_witness:
  "snd (SimpleByteArray [9, 10, 11, 12], 4 :: u64) \<noteq> 0
   \<and> snd (SimpleByteArray [13 :: byte], 8 :: u64) \<noteq> 0
   \<and> ts_compression_enabled
        (snd (PutChunkValidSize ex_db (SimpleByteArray [7]) (SimpleByteArray [5, 6, 7, 8]) 0 9 ex_state)) = 0
   \<and> ts_compression_enabled
        (PutChunkValidSize_calls ex_db (SimpleByteArray [7]) 9
           [(SimpleByteArray [9, 10, 11, 12], 4), (SimpleByteArray [13], 8)]
           (snd (PutChunkValidSize ex_db (SimpleByteArray [7]) (SimpleByteArray [5, 6, 7, 8]) 0 9 ex_state))) = 0"
proof -
  have e: "ts_compression_enabled
        (snd (PutChunkValidSize ex_db (SimpleByteArray [7]) (SimpleByteArray [5, 6, 7, 8]) 0 9 ex_state)) = 0"
    by (simp add: ex_simps do_compression_def size_b_def size_frame_header_def
          PutChunkValidSize_frame_def PutChunkValidSize_compress_def is_first_chunk_def
          is_last_chunk_def PutChunkValidSize_size_value_compressed_def PutChunkValidSize_def
          PutChunkValidSize_finish_def Let_def)
  show ?thesis
    using e fallback_stays_engaged [of "[(SimpleByteArray [9, 10, 11, 12], 4), (SimpleByteArray [13], 8)]"
        "snd (PutChunkValidSize ex_db (SimpleByteArray [7]) (SimpleByteArray [5, 6, 7, 8]) 0 9 ex_state)"
        ex_db "SimpleByteArray [7]" 9]
    by simp
qed

subsection \<open>Compressed size of the value on the last chunk\<close>

text \<open>
  Claim C2.  On the last chunk of an entry, with compression wanted for the chunk, the
  compressed size handed to the write buffer is to be the compressor's size when
  \<open>ts_compression_enabled\<close> is 1, and \<open>offset_chunk_compressed + chunk.size\<close> when it is
  0.  Lemma \<open>size_value_compressed_handed_over\<close> above shows that whatever is handed to
  the write buffer carries this value (and 0 on any other chunk).  The theorem shows where
  the source does not get that far: when the fallback is engaged by the last chunk itself
  (open database, healthy file system, a successful compression whose frame fails the
  space check), line 162 has deleted \<open>chunk\<close> before line 169 reads \<open>chunk->size()\<close>,
  and the call ends in a use of a deleted object instead of handing the chunk over.
\<close>

theorem size_value_compressed_of_deleted_chunk:
  fixes db :: "('c, 'h) KingDB" and \<sigma> :: "('c, 'h) state"
    and key chunk :: ByteArray and offset_chunk size_value :: u64
  defines "c0 \<equiv> (if offset_chunk = 0 then compressor_Reset db (compressor \<sigma>) else compressor \<sigma>)"
  defines "out \<equiv> compressor_Compress db c0 (data chunk)"
  defines "out_len \<equiv> (word_of_nat (length (fst (snd out))) :: u64)"
  assumes "\<not> is_closed db"
    and "IsOK (se_FileSystemStatus db (trace \<sigma> @ [SE_FileSystemStatus]))"
    and "do_compression db chunk"
    and "is_last_chunk chunk offset_chunk size_value"
    and "offset_chunk = 0 \<or> ts_compression_enabled \<sigma> = 1"
    and "IsOK (fst out)"
    and "size_value - offset_chunk - size_b chunk + size_frame_header db
           > size_value + CalculatePaddingSize db size_value - compressor_size_compressed db c0
               - out_len"
  shows "fst (PutChunkValidSize db key chunk offset_chunk size_value \<sigma>) = Inl UseAfterDelete"
proof -
  define \<sigma>1 where "\<sigma>1 = call SE_FileSystemStatus \<sigma>"
  have c: "compressor \<sigma>1 = compressor \<sigma>" and e: "ts_compression_enabled \<sigma>1 = ts_compression_enabled \<sigma>"
    and tr: "trace \<sigma>1 = trace \<sigma> @ [SE_FileSystemStatus]"
    by (simp_all add: \<sigma>1_def call_def)
  define \<sigma>2 where "\<sigma>2 = snd (PutChunkValidSize_frame db chunk offset_chunk size_value \<sigma>1)"
  have comp: "offset_chunk = 0 \<or> ts_compression_enabled \<sigma>1 = 1"
    using assms(8) e by simp
  have fr: "fst (PutChunkValidSize_frame db chunk offset_chunk size_value \<sigma>1) =
      Inr (True, SharedAllocatedByteArray (frame_header_uncompressed db @ data chunk),
           compressor_size_compressed db c0)"
    using assms(9,10) c
    unfolding out_len_def out_def c0_def PutChunkValidSize_frame_compressed [OF assms(6) comp]
    by (cases "offset_chunk = 0")
      (simp_all add: PutChunkValidSize_compress_def is_first_chunk_def Let_def)
  have e2: "ts_compression_enabled \<sigma>2 = 0"
    using assms(9,10) c
    unfolding \<sigma>2_def out_len_def out_def c0_def
      PutChunkValidSize_frame_compressed [OF assms(6) comp]
    by (cases "offset_chunk = 0")
      (simp_all add: PutChunkValidSize_compress_def is_first_chunk_def Let_def)
  have fr': "PutChunkValidSize_frame db chunk offset_chunk size_value \<sigma>1 =
      (Inr (True, SharedAllocatedByteArray (frame_header_uncompressed db @ data chunk),
            compressor_size_compressed db c0), \<sigma>2)"
    using fr by (simp add: \<sigma>2_def prod_eq_iff)
  have svc: "PutChunkValidSize_size_value_compressed db chunk offset_chunk size_value True
               (compressor_size_compressed db c0) \<sigma>2 = Inl UseAfterDelete"
    using assms(6,7) e2 by (simp add: PutChunkValidSize_size_value_compressed_def)
  show ?thesis
    using assms(4,5)
    by (simp add: PutChunkValidSize_def Let_def \<sigma>1_def [symmetric] tr fr' svc)
qed

theorem size_value_compressed_of_deleted_chunk_witness:
  "\<not> is_closed ex_db
   \<and> IsOK (se_FileSystemStatus ex_db (trace ex_state @ [SE_FileSystemStatus]))
   \<and> do_compression ex_db (SimpleByteArray [5, 6, 7, 8])
   \<and> is_last_chunk (SimpleByteArray [5, 6, 7, 8]) 0 4
   \<and> IsOK (fst (compressor_Compress ex_db (compressor_Reset ex_db (compressor ex_state)) [5, 6, 7, 8]))
   \<and> fst (PutChunkValidSize ex_db (SimpleByteArray [7]) (SimpleByteArray [5, 6, 7, 8]) 0 4 ex_state) =
       Inl UseAfterDelete"
  using size_value_compressed_of_deleted_chunk
    [of ex_db ex_state "SimpleByteArray [5, 6, 7, 8]" 0 4 "SimpleByteArray [7]"]
  by (simp add: ex_simps do_compression_def is_last_chunk_def size_b_def size_frame_header_def)

subsection \<open>Snapshots\<close>

text \<open>
  Claim C8.  On an open database \<open>NewSnapshot\<close> calls, in this order: the write buffer's
  \<open>Flush\<close>; the engine's \<open>FlushCurrentFileForSnapshot\<close>, which gives \<open>fileid_end\<close>; the
  engine's \<open>GetNewSnapshotData\<close>, which gives a status, \<open>snapshot_id\<close> and
  \<open>fileids_ignore\<close>.  If that status is not OK, nothing more is called and the result is
  the null pointer.  Otherwise it constructs the read-only engine from the database name,
  read-only set, \<open>fileids_ignore\<close> and \<open>fileid_end\<close>, asks it for the list of file ids,
  and returns a snapshot made of the live engine, the read-only engine, that list and
  \<open>snapshot_id\<close>.
\<close>

theorem NewSnapshot_steps:
  fixes db :: "('c, 'h) KingDB" and \<sigma> :: "('c, 'h) state"
  defines "t3 \<equiv> trace \<sigma> @ [WB_Flush, SE_FlushCurrentFileForSnapshot, SE_GetNewSnapshotData]"
  defines "fileid_end \<equiv>
             se_FlushCurrentFileForSnapshot db (trace \<sigma> @ [WB_Flush, SE_FlushCurrentFileForSnapshot])"
  defines "s \<equiv> fst (se_GetNewSnapshotData db t3)"
  defines "snapshot_id \<equiv> fst (snd (se_GetNewSnapshotData db t3))"
  defines "fileids_ignore \<equiv> snd (snd (se_GetNewSnapshotData db t3))"
  defines "se_readonly \<equiv> \<lparr>se_dbname = dbname db, se_read_only = True,
                            se_fileids_ignore = fileids_ignore, se_fileid_end = fileid_end\<rparr>"
  defines "fileids_iterator \<equiv>
             se_GetFileidsIterator db (t3 @ [SE_New se_readonly, SE_GetFileidsIterator se_readonly])"
  defines "snapshot \<equiv> \<lparr>sn_dbname = dbname db, sn_se = LiveEngine,
                         sn_se_readonly = ReadOnlyEngine se_readonly,
                         sn_fileids_iterator = fileids_iterator, sn_snapshot_id = snapshot_id\<rparr>"
  assumes "\<not> is_closed db"
  shows "(IsOK s \<longrightarrow>
            NewSnapshot db \<sigma> =
              (Some snapshot,
               \<sigma>\<lparr>trace := t3 @ [SE_New se_readonly, SE_GetFileidsIterator se_readonly,
                                 Snapshot_New snapshot]\<rparr>))
       \<and> (\<not> IsOK s \<longrightarrow> NewSnapshot db \<sigma> = (None, \<sigma>\<lparr>trace := t3\<rparr>))"
  using assms(9)
  unfolding snapshot_def fileids_iterator_def se_readonly_def fileids_ignore_def snapshot_id_def
    s_def fileid_end_def t3_def
  by (simp add: NewSnapshot_def call_def Let_def)

theorem NewSnapshot_steps_witness:
  "\<not> is_closed ex_db
   \<and> IsOK (fst (se_GetNewSnapshotData ex_db
        (trace ex_state @ [WB_Flush, SE_FlushCurrentFileForSnapshot, SE_GetNewSnapshotData])))
   \<and> fst (NewSnapshot ex_db ex_state) =
       Some \<lparr>sn_dbname = ''db'', sn_se = LiveEngine,
              sn_se_readonly = ReadOnlyEngine \<lparr>se_dbname = ''db'', se_read_only = True,
                 se_fileids_ignore = [9], se_fileid_end = 7\<rparr>,
              sn_fileids_iterator = [1, 2, 3], sn_snapshot_id = 1\<rparr>
   \<and> \<not> IsOK (fst (se_GetNewSnapshotData
        (ex_db\<lparr>se_GetNewSnapshotData := \<lambda>tr. (Status kIOError ''no snapshot'', 0, [])\<rparr>)
        (trace ex_state @ [WB_Flush, SE_FlushCurrentFileForSnapshot, SE_GetNewSnapshotData])))
   \<and> NewSnapshot (ex_db\<lparr>se_GetNewSnapshotData := \<lambda>tr. (Status kIOError ''no snapshot'', 0, [])\<rparr>)
        ex_state =
       (None, ex_state\<lparr>trace := [WB_Flush, SE_FlushCurrentFileForSnapshot, SE_GetNewSnapshotData]\<rparr>)"
  using NewSnapshot_steps [of ex_db ex_state]
    NewSnapshot_steps [of "ex_db\<lparr>se_GetNewSnapshotData := \<lambda>tr. (Status kIOError ''no snapshot'', 0, [])\<rparr>" ex_state]
  by (simp add: ex_simps)

text \<open>
  Claim C10.  \<open>NewIterator\<close> is to return the null pointer whenever its call of
  \<open>NewSnapshot\<close> returns the null pointer.  It does not: on an open database whose
  engine fails \<open>GetNewSnapshotData\<close>, \<open>NewSnapshot\<close> returns the null pointer and line
  244 calls \<open>NewIterator\<close> through it.
\<close>

theorem NewIterator_null_snapshot:
  assumes "\<not> is_closed db"
    and "\<not> IsOK (fst (se_GetNewSnapshotData db
            (trace \<sigma> @ [WB_Flush, SE_FlushCurrentFileForSnapshot, SE_GetNewSnapshotData])))"
  shows "fst (NewSnapshot db \<sigma>) = None
       \<and> fst (NewIterator db \<sigma>) = Inl NullDereference
       \<and> fst (NewIterator db \<sigma>) \<noteq> Inr None"
  using assms by (simp add: NewIterator_def NewSnapshot_def call_def Let_def)

theorem NewIterator_null_snapshot_witness:
  "\<not> is_closed (ex_db\<lparr>se_GetNewSnapshotData := \<lambda>tr. (Status kIOError ''no snapshot'', 0, [])\<rparr>)
   \<and> \<not> IsOK (fst (se_GetNewSnapshotData
        (ex_db\<lparr>se_GetNewSnapshotData := \<lambda>tr. (Status kIOError ''no snapshot'', 0, [])\<rparr>)
        (trace ex_state @ [WB_Flush, SE_FlushCurrentFileForSnapshot, SE_GetNewSnapshotData])))
   \<and> fst (NewIterator (ex_db\<lparr>se_GetNewSnapshotData := \<lambda>tr. (Status kIOError ''no snapshot'', 0, [])\<rparr>)
        ex_state) = Inl NullDereference"
  using NewIterator_null_snapshot
    [of "ex_db\<lparr>se_GetNewSnapshotData := \<lambda>tr. (Status kIOError ''no snapshot'', 0, [])\<rparr>" ex_state]
  by (simp add: ex_simps)

subsection \<open>Oversize chunks\<close>

lemma u64_unat_of_nat: "a < 2 ^ 64 \<Longrightarrow> unat (word_of_nat a :: u64) = a"
  by (simp add: unat_of_nat)

lemma u64_of_nat_less:
  "a < 2 ^ 64 \<Longrightarrow> b < 2 ^ 64 \<Longrightarrow> ((word_of_nat a :: u64) < word_of_nat b) = (a < b)"
  by (simp add: word_less_nat_alt u64_unat_of_nat)

lemma round_up_bounds:
  fixes m n :: nat
  assumes "0 < m" and "0 < n"
  shows "((n + m - 1) div m - 1) * m < n" and "n \<le> (n + m - 1) div m * m"
    and "0 < (n + m - 1) div m"
proof -
  define k where "k = (n + m - 1) div m"
  have le: "k * m \<le> n + m - 1"
    unfolding k_def by (rule div_times_less_eq_dividend)
  have gt: "n + m - 1 < k * m + m"
    unfolding k_def using dividend_less_div_times [OF assms(1), of "n + m - 1"]
    by (simp add: add.commute)
  show pos: "0 < (n + m - 1) div m"
    using assms by (simp add: div_greater_zero_iff)
  have "(k - 1) * m + m = k * m"
    using pos unfolding k_def by (cases "(n + m - 1) div m") simp_all
  with le assms show "((n + m - 1) div m - 1) * m < n"
    unfolding k_def by linarith
  from gt assms show "n \<le> (n + m - 1) div m * m"
    unfolding k_def by linarith
qed

lemma data_set_offset: "data (set_offset n chunk) = drop n (data chunk)"
  by (cases chunk) simp_all

lemma concat_windows:
  "concat (map (\<lambda>i. take m (drop (i * m) d)) [0..<j]) = take (j * m) d"
proof (induction j)
  case 0
  then show ?case by simp
next
  case (Suc j)
  have "take (j * m + m) d = take (j * m) d @ take m (drop (j * m) d)"
    by (rule take_add)
  with Suc show ?case by (simp add: add.commute)
qed

lemma PutChunk_loop_done:
  assumes "\<not> offset < size_chunk"
  shows "PutChunk_loop db key chunk offset_chunk size_value size_chunk offset handed s \<sigma> =
           Some (Inr s, \<sigma>)"
  using assms by (subst PutChunk_loop.simps) simp

lemma PutChunk_loop_step:
  assumes "offset < size_chunk"
  shows "PutChunk_loop db key chunk offset_chunk size_value size_chunk offset False s \<sigma> =
    (let window = (offset + storage__maximum_chunk_size db < size_b chunk);
         chunk_new =
           (if window
            then SimpleByteArray (take (unat (storage__maximum_chunk_size db))
                                    (drop (unat offset) (data chunk)))
            else set_offset (unat offset) chunk);
         r = PutChunkValidSize db key chunk_new (offset_chunk + offset) size_value \<sigma>
     in if isl (fst r) then Some r
        else if \<not> IsOK (projr (fst r)) then Some r
        else PutChunk_loop db key chunk offset_chunk size_value size_chunk
               (offset + storage__maximum_chunk_size db) (\<not> window) (projr (fst r)) (snd r))"
  using assms by (subst PutChunk_loop.simps) simp

lemma PutChunk_loop_from:
  fixes db :: "('c, 'h) KingDB" and chunk :: ByteArray
  defines "m \<equiv> unat (storage__maximum_chunk_size db)"
  defines "n \<equiv> length (data chunk)"
  defines "k \<equiv> (n + m - 1) div m"
  defines "window \<equiv> \<lambda>i. (SimpleByteArray (take m (drop (i * m) (data chunk))), i * m)"
  defines "final \<equiv> (set_offset ((k - 1) * m) chunk, (k - 1) * m)"
  assumes "0 < m" and "m < n" and "n < 2 ^ 63" and "j \<le> k - 1"
  shows "PutChunk_loop db key chunk offset_chunk size_value (size_b chunk) (word_of_nat (j * m))
           False s \<sigma> =
         Some (submit_in_order db key offset_chunk size_value (map window [j..<k - 1] @ [final]) s \<sigma>)"
  using assms(9)
proof (induction "k - 1 - j" arbitrary: j s \<sigma>)
  case 0
  then have j: "j = k - 1" by simp
  define q where "q = (k - 1) * m"
  define off :: u64 where "off = word_of_nat q"
  define off' :: u64 where "off' = word_of_nat (k * m)"
  have npos: "0 < n" using assms(6,7) by simp
  have lo: "(k - 1) * m < n" and hi: "n \<le> k * m" and kpos: "0 < k"
    unfolding k_def using round_up_bounds [OF assms(6) npos] by simp_all
  have km: "k * m = (k - 1) * m + m"
    using kpos by (cases k) simp_all
  have nn: "n + n < 2 ^ 64" using assms(8) by simp
  have b1: "(k - 1) * m < 2 ^ 64" and b2: "k * m < 2 ^ 64" and b3: "n < 2 ^ 64"
    using lo km assms(7) nn by linarith+
  have mx: "storage__maximum_chunk_size db = word_of_nat m"
    by (simp add: m_def)
  have sz: "size_b chunk = word_of_nat n"
    by (simp add: size_b_def n_def)
  have lt: "off < size_b chunk"
    unfolding off_def q_def sz u64_of_nat_less [OF b1 b3] by (rule lo)
  have nxt: "off + storage__maximum_chunk_size db = off'"
    unfolding off_def q_def off'_def mx km by (simp only: of_nat_add)
  have nowin: "\<not> off' < size_b chunk"
    unfolding off'_def sz u64_of_nat_less [OF b2 b3] using hi by simp
  have un: "unat off = q"
    unfolding off_def q_def by (rule u64_unat_of_nat [OF b1])
  have fin: "\<And>s' \<sigma>'. PutChunk_loop db key chunk offset_chunk size_value (size_b chunk)
      off' True s' \<sigma>' = Some (Inr s', \<sigma>')"
    by (rule PutChunk_loop_done [OF nowin])
  have "PutChunk_loop db key chunk offset_chunk size_value (size_b chunk) off False s \<sigma> =
         Some (submit_in_order db key offset_chunk size_value [(set_offset q chunk, q)] s \<sigma>)"
    unfolding PutChunk_loop_step [OF lt] nxt
    using nowin
    by (simp add: Let_def un fin prod_eq_iff off_def [symmetric])
  then show ?case
    unfolding j off_def final_def q_def by simp
next
  case (Suc d)
  then have jlt: "j < k - 1" and d: "d = k - 1 - Suc j" and sj: "Suc j \<le> k - 1" by simp_all
  define q where "q = j * m"
  define off :: u64 where "off = word_of_nat q"
  define off' :: u64 where "off' = word_of_nat (Suc j * m)"
  have npos: "0 < n" using assms(6,7) by simp
  have lo: "(k - 1) * m < n"
    unfolding k_def using round_up_bounds [OF assms(6) npos] by simp
  have sjm: "Suc j * m \<le> (k - 1) * m" using sj by (rule mult_le_mono1)
  have sjm': "Suc j * m = j * m + m" by simp
  have nn: "n + n < 2 ^ 64" using assms(8) by simp
  have b1: "j * m < 2 ^ 64" and b2: "Suc j * m < 2 ^ 64" and b3: "n < 2 ^ 64"
    using lo sjm sjm' nn by linarith+
  have mx: "storage__maximum_chunk_size db = word_of_nat m"
    by (simp add: m_def)
  have sz: "size_b chunk = word_of_nat n"
    by (simp add: size_b_def n_def)
  have jn: "j * m < n" using lo sjm sjm' by linarith
  have sjn: "Suc j * m < n" using lo sjm by linarith
  have lt: "off < size_b chunk"
    unfolding off_def q_def sz u64_of_nat_less [OF b1 b3] by (rule jn)
  have nxt: "off + storage__maximum_chunk_size db = off'"
    unfolding off_def q_def off'_def mx sjm' by (simp only: of_nat_add)
  have win: "off' < size_b chunk"
    unfolding off'_def sz u64_of_nat_less [OF b2 b3] by (rule sjn)
  have un: "unat off = q"
    unfolding off_def q_def by (rule u64_unat_of_nat [OF b1])
  have upt: "[j..<k - 1] = j # [Suc j..<k - 1]"
    using jlt by (rule upt_conv_Cons)
  note IH = Suc.hyps(1) [OF d sj, folded off'_def]
  have "PutChunk_loop db key chunk offset_chunk size_value (size_b chunk) off False s \<sigma> =
         Some (submit_in_order db key offset_chunk size_value
                 ((SimpleByteArray (take m (drop q (data chunk))), q)
                  # (map window [Suc j..<k - 1] @ [final])) s \<sigma>)"
    unfolding PutChunk_loop_step [OF lt] nxt
    using win
    by (simp add: Let_def un IH m_def [symmetric] off_def [symmetric])
  then show ?case
    unfolding upt off_def q_def window_def by simp
qed

lemma PutChunkValidSize_empty_first:
  assumes "\<not> is_closed db"
    and "\<forall>tr. IsOK (se_FileSystemStatus db tr)"
    and "\<forall>tr. IsOK (wb_PutChunk db tr)"
  shows "\<not> isl (fst (PutChunkValidSize db key (SimpleByteArray []) 0 size_value \<sigma>))
       \<and> IsOK (projr (fst (PutChunkValidSize db key (SimpleByteArray []) 0 size_value \<sigma>)))"
  using assms
  by (simp add: PutChunkValidSize_def PutChunkValidSize_frame_def PutChunkValidSize_finish_def
        PutChunkValidSize_size_value_compressed_def do_compression_def is_first_chunk_def
        size_b_def call_def Let_def)

lemma PutChunk_loop_zero_step:
  assumes "PutChunk_loop db key chunk offset_chunk size_value size_chunk offset handed s \<sigma> = Some y"
  shows "\<not> zero_step_loop db chunk offset_chunk size_chunk offset handed"
proof (rule PutChunk_loop.raw_induct
    [where P = "\<lambda>db key chunk offset_chunk size_value size_chunk offset handed s \<sigma> y.
                  \<not> zero_step_loop db chunk offset_chunk size_chunk offset handed", OF _ assms])
  fix f :: "('c, 'h) KingDB \<Rightarrow> ByteArray \<Rightarrow> ByteArray \<Rightarrow> u64 \<Rightarrow> u64 \<Rightarrow> u64 \<Rightarrow> u64 \<Rightarrow> bool \<Rightarrow> Status
    \<Rightarrow> ('c, 'h) state \<Rightarrow> ((fault + Status) \<times> ('c, 'h) state) option"
  fix db key chunk offset_chunk size_value size_chunk offset handed s \<sigma> y
  assume IH: "\<And>db key chunk offset_chunk size_value size_chunk offset handed s \<sigma> y.
      f db key chunk offset_chunk size_value size_chunk offset handed s \<sigma> = Some y \<Longrightarrow>
      \<not> zero_step_loop db chunk offset_chunk size_chunk offset handed"
  assume body: "(if offset < size_chunk then
       (if handed then Some (Inl UseAfterDelete, \<sigma>)
        else
          let window = (offset + storage__maximum_chunk_size db < size_b chunk);
              chunk_new =
                (if window
                 then SimpleByteArray (take (unat (storage__maximum_chunk_size db))
                                         (drop (unat offset) (data chunk)))
                 else set_offset (unat offset) chunk);
              r = PutChunkValidSize db key chunk_new (offset_chunk + offset) size_value \<sigma>
          in if isl (fst r) then Some r
             else if \<not> IsOK (projr (fst r)) then Some r
             else f db key chunk offset_chunk size_value size_chunk
                    (offset + storage__maximum_chunk_size db) (\<not> window) (projr (fst r)) (snd r))
     else Some (Inr s, \<sigma>)) = Some y"
  show "\<not> zero_step_loop db chunk offset_chunk size_chunk offset handed"
  proof
    assume inv: "zero_step_loop db chunk offset_chunk size_chunk offset handed"
    define r where "r = PutChunkValidSize db key (SimpleByteArray []) 0 size_value \<sigma>"
    have ok: "\<not> isl (fst r) \<and> IsOK (projr (fst r))"
      unfolding r_def using inv
      by (intro PutChunkValidSize_empty_first) (simp_all add: zero_step_loop_def)
    have "f db key chunk offset_chunk size_value size_chunk offset handed (projr (fst r)) (snd r) = Some y"
      using body inv ok by (simp add: Let_def r_def [symmetric] zero_step_loop_def)
    from IH [OF this] inv show False by simp
  qed
qed

lemma PutChunk_loop_zero_step_None:
  assumes "storage__maximum_chunk_size db = 0" and "0 < size_b chunk" and "\<not> is_closed db"
    and "\<forall>tr. IsOK (se_FileSystemStatus db tr)" and "\<forall>tr. IsOK (wb_PutChunk db tr)"
  shows "PutChunk_loop db key chunk 0 size_value (size_b chunk) 0 False s \<sigma> = None"
proof (cases "PutChunk_loop db key chunk 0 size_value (size_b chunk) 0 False s \<sigma>")
  case None
  then show ?thesis .
next
  case (Some y)
  from PutChunk_loop_zero_step [OF Some] assms show ?thesis by (simp add: zero_step_loop_def)
qed

text \<open>
  Claim C4, as amended.  For a call of \<open>PutChunk\<close> on an open database whose
  \<open>storage__maximum_chunk_size\<close> is positive, with \<open>size_value\<close> and the size of the
  chunk above that maximum (and a chunk of less than \<open>2 ^ 63\<close> bytes, as any buffer in
  memory is), the call returns, and what it does is this: the chunk is broken into \<open>k\<close>
  sub-chunks, \<open>k\<close> at least 2, at the offsets \<open>0\<close>, \<open>m\<close>, \<open>2 * m\<close>, ... within the
  chunk, where \<open>m\<close> is the maximum; all but the last are non-owning windows of exactly
  \<open>m\<close> bytes into the input, the last is the input buffer with its offset advanced and
  has between 1 and \<open>m\<close> bytes; together they are the bytes of the chunk; they are
  submitted in this order to \<open>PutChunkValidSize\<close> at \<open>offset_chunk\<close> plus their offset,
  and the first submission that does not return OK ends the loop and is the result.
\<close>

theorem PutChunk_oversize_split:
  fixes db :: "('c, 'h) KingDB" and \<sigma> :: "('c, 'h) state"
    and key chunk :: ByteArray and offset_chunk size_value :: u64
  defines "m \<equiv> unat (storage__maximum_chunk_size db)"
  defines "k \<equiv> (length (data chunk) + m - 1) div m"
  assumes "\<not> is_closed db"
    and "0 < storage__maximum_chunk_size db"
    and "storage__maximum_chunk_size db < size_value"
    and "storage__maximum_chunk_size db < size_b chunk"
    and "length (data chunk) < 2 ^ 63"
  shows "PutChunk db key chunk offset_chunk size_value \<sigma> =
           Some (submit_in_order db key offset_chunk size_value (sub_chunks m chunk) OK \<sigma>)
       \<and> length (sub_chunks m chunk) = k \<and> 2 \<le> k
       \<and> map snd (sub_chunks m chunk) = map (\<lambda>i. i * m) [0..<k]
       \<and> (\<forall>i < k - 1.
            fst (sub_chunks m chunk ! i) = SimpleByteArray (take m (drop (i * m) (data chunk))) \<and>
            length (data (fst (sub_chunks m chunk ! i))) = m)
       \<and> fst (sub_chunks m chunk ! (k - 1)) = set_offset ((k - 1) * m) chunk
       \<and> 0 < length (data (fst (sub_chunks m chunk ! (k - 1))))
       \<and> length (data (fst (sub_chunks m chunk ! (k - 1)))) \<le> m
       \<and> concat (map (\<lambda>c. data (fst c)) (sub_chunks m chunk)) = data chunk"
proof -
  define n where "n = length (data chunk)"
  have n64: "n < 2 ^ 64" using assms(7) unfolding n_def by simp
  have mpos: "0 < m"
    using assms(4) unfolding m_def by (simp add: word_less_nat_alt)
  have mn: "m < n"
    using assms(6) unfolding m_def size_b_def n_def [symmetric]
    by (simp add: word_less_nat_alt u64_unat_of_nat [OF n64])
  have npos: "0 < n" using mpos mn by simp
  have k: "k = (n + m - 1) div m" unfolding k_def n_def by simp
  have lo: "(k - 1) * m < n" and hi: "n \<le> k * m" and kpos: "0 < k"
    unfolding k using round_up_bounds [OF mpos npos] by simp_all
  have km: "k * m = (k - 1) * m + m"
    using kpos by (cases k) simp_all
  have k2: "2 \<le> k"
  proof (rule ccontr)
    assume "\<not> 2 \<le> k"
    with kpos have "k = 1" by simp
    with hi mn show False by simp
  qed
  have sub: "sub_chunks m chunk =
      map (\<lambda>i. (SimpleByteArray (take m (drop (i * m) (data chunk))), i * m)) [0..<k - 1]
      @ [(set_offset ((k - 1) * m) chunk, (k - 1) * m)]"
    unfolding sub_chunks_def k_def by (simp add: Let_def)
  have len: "length (sub_chunks m chunk) = k"
    unfolding sub using kpos by simp
  have run: "PutChunk db key chunk offset_chunk size_value \<sigma> =
           Some (submit_in_order db key offset_chunk size_value (sub_chunks m chunk) OK \<sigma>)"
  proof -
    have big: "\<not> size_value \<le> storage__maximum_chunk_size db"
      using assms(5) by simp
    have "PutChunk db key chunk offset_chunk size_value \<sigma> =
        PutChunk_loop db key chunk offset_chunk size_value (size_b chunk) (word_of_nat (0 * m))
          False OK \<sigma>"
      using assms(3) big by (simp add: PutChunk_def)
    also have "\<dots> = Some (submit_in_order db key offset_chunk size_value
        (map (\<lambda>i. (SimpleByteArray (take m (drop (i * m) (data chunk))), i * m)) [0..<k - 1]
         @ [(set_offset ((k - 1) * m) chunk, (k - 1) * m)]) OK \<sigma>)"
      unfolding k_def m_def
      by (rule PutChunk_loop_from)
        (use mpos mn assms(7) in \<open>simp_all add: m_def n_def\<close>)
    also have "\<dots> = Some (submit_in_order db key offset_chunk size_value (sub_chunks m chunk) OK \<sigma>)"
      unfolding sub by (rule refl)
    finally show ?thesis .
  qed
  have offs: "map snd (sub_chunks m chunk) = map (\<lambda>i. i * m) [0..<k]"
  proof -
    have "[0..<k] = [0..<k - 1] @ [k - 1]"
      using kpos by (cases k) simp_all
    then show ?thesis unfolding sub by (simp add: comp_def)
  qed
  have windows: "\<forall>i < k - 1.
            fst (sub_chunks m chunk ! i) = SimpleByteArray (take m (drop (i * m) (data chunk))) \<and>
            length (data (fst (sub_chunks m chunk ! i))) = m"
  proof (intro allI impI)
    fix i assume i: "i < k - 1"
    then have "Suc i * m \<le> (k - 1) * m" by (intro mult_le_mono1) simp
    with lo have "i * m + m \<le> n" by simp
    then have "m \<le> length (data chunk) - i * m" unfolding n_def by simp
    with i show "fst (sub_chunks m chunk ! i) = SimpleByteArray (take m (drop (i * m) (data chunk))) \<and>
            length (data (fst (sub_chunks m chunk ! i))) = m"
      unfolding sub by (simp add: nth_append)
  qed
  have lst: "fst (sub_chunks m chunk ! (k - 1)) = set_offset ((k - 1) * m) chunk"
    unfolding sub by (simp add: nth_append)
  have lstlen: "0 < length (data (fst (sub_chunks m chunk ! (k - 1))))"
    "length (data (fst (sub_chunks m chunk ! (k - 1)))) \<le> m"
    unfolding lst data_set_offset using lo hi km unfolding n_def by simp_all
  have cat: "concat (map (\<lambda>c. data (fst c)) (sub_chunks m chunk)) = data chunk"
    unfolding sub
    by (simp add: comp_def data_set_offset concat_windows)
  from run len k2 offs windows lst lstlen cat show ?thesis by blast
qed

theorem PutChunk_oversize_split_witness:
  "\<not> is_closed (ex_db\<lparr>compression_type := kNoCompression\<rparr>)
   \<and> 0 < storage__maximum_chunk_size (ex_db\<lparr>compression_type := kNoCompression\<rparr>)
   \<and> storage__maximum_chunk_size (ex_db\<lparr>compression_type := kNoCompression\<rparr>) < 7
   \<and> storage__maximum_chunk_size (ex_db\<lparr>compression_type := kNoCompression\<rparr>)
        < size_b (SimpleByteArray [97, 98, 99, 100, 101, 102, 103])
   \<and> length (data (SimpleByteArray [97, 98, 99, 100, 101, 102, 103])) < 2 ^ 63
   \<and> sub_chunks 4 (SimpleByteArray [97, 98, 99, 100, 101, 102, 103]) =
        [(SimpleByteArray [97, 98, 99, 100], 0), (SimpleByteArray [101, 102, 103], 4)]
   \<and> PutChunk (ex_db\<lparr>compression_type := kNoCompression\<rparr>) (SimpleByteArray [107])
        (SimpleByteArray [97, 98, 99, 100, 101, 102, 103]) 0 7 ex_state =
       Some (Inr OK,
             ex_state\<lparr>trace :=
               [SE_FileSystemStatus,
                WB_PutChunk (SimpleByteArray [107]) (SimpleByteArray [97, 98, 99, 100]) 0 7 0 0,
                SE_FileSystemStatus,
                WB_PutChunk (SimpleByteArray [107]) (SimpleByteArray [101, 102, 103]) 4 7 0 8],
               ts_compression_enabled := 1,
               crc32 := [107, 97, 98, 99, 100, 101, 102, 103]\<rparr>)"
proof -
  have sub: "sub_chunks 4 (SimpleByteArray [97, 98, 99, 100, 101, 102, 103]) =
        [(SimpleByteArray [97, 98, 99, 100], 0), (SimpleByteArray [101, 102, 103], 4)]"
    by code_simp
  have run: "submit_in_order (ex_db\<lparr>compression_type := kNoCompression\<rparr>) (SimpleByteArray [107]) 0 7
        [(SimpleByteArray [97, 98, 99, 100], 0), (SimpleByteArray [101, 102, 103], 4)] OK ex_state =
       (Inr OK,
             ex_state\<lparr>trace :=
               [SE_FileSystemStatus,
                WB_PutChunk (SimpleByteArray [107]) (SimpleByteArray [97, 98, 99, 100]) 0 7 0 0,
                SE_FileSystemStatus,
                WB_PutChunk (SimpleByteArray [107]) (SimpleByteArray [101, 102, 103]) 4 7 0 8],
               ts_compression_enabled := 1,
               crc32 := [107, 97, 98, 99, 100, 101, 102, 103]\<rparr>)"
    by code_simp
  have m: "unat (storage__maximum_chunk_size (ex_db\<lparr>compression_type := kNoCompression\<rparr>)) = 4"
    by (simp add: ex_db_def)
  show ?thesis
    using PutChunk_oversize_split [of "ex_db\<lparr>compression_type := kNoCompression\<rparr>" 7
        "SimpleByteArray [97, 98, 99, 100, 101, 102, 103]" "SimpleByteArray [107]" 0 ex_state]
    unfolding m sub run
    by (simp add: ex_db_def size_b_def)
qed

text \<open>
  The claim as it was stated covers a maximum chunk size of 0.  There the loop does not
  advance: with an engine and a write buffer that answer OK, it submits empty windows for
  ever, and the call never returns.
\<close>

theorem PutChunk_zero_maximum_never_returns:
  "\<not> is_closed (ex_db\<lparr>storage__maximum_chunk_size := 0\<rparr>)
   \<and> storage__maximum_chunk_size (ex_db\<lparr>storage__maximum_chunk_size := 0\<rparr>) < 7
   \<and> storage__maximum_chunk_size (ex_db\<lparr>storage__maximum_chunk_size := 0\<rparr>)
        < size_b (SimpleByteArray [97, 98, 99, 100, 101, 102, 103])
   \<and> PutChunk (ex_db\<lparr>storage__maximum_chunk_size := 0\<rparr>) (SimpleByteArray [107])
        (SimpleByteArray [97, 98, 99, 100, 101, 102, 103]) 0 7 ex_state = None"
proof -
  have "PutChunk_loop (ex_db\<lparr>storage__maximum_chunk_size := 0\<rparr>) (SimpleByteArray [107])
        (SimpleByteArray [97, 98, 99, 100, 101, 102, 103]) 0 7
        (size_b (SimpleByteArray [97, 98, 99, 100, 101, 102, 103])) 0 False OK ex_state = None"
    by (rule PutChunk_loop_zero_step_None) (simp_all add: ex_simps size_b_def)
  then show ?thesis
    by (simp add: PutChunk_def ex_db_def size_b_def)
qed

end
